theory Spec2Isabelle
  imports Main "HOL-Library.Sublist"
begin

section \<open>Python text\<close>

text \<open>
  A Python \<open>str\<close> is modelled as a \<open>string\<close>; a character stands for a code point below
  256 (Latin-1), and \<open>length\<close> is Python's \<open>len\<close>. The functions below are Python's
  \<open>str\<close> methods restricted to that range.
\<close>

definition py_lower_char :: "char \<Rightarrow> char" where
  "py_lower_char c = (let n = (of_char c :: nat) in
     if (65 \<le> n \<and> n \<le> 90) \<or> (192 \<le> n \<and> n \<le> 214) \<or> (216 \<le> n \<and> n \<le> 222)
     then (case c of Char b0 b1 b2 b3 b4 b5 b6 b7 \<Rightarrow> Char b0 b1 b2 b3 b4 True b6 b7)
     else c)"

definition py_lower :: "string \<Rightarrow> string" where
  "py_lower s = map py_lower_char s"

definition py_isspace :: "char \<Rightarrow> bool" where
  "py_isspace c = ((of_char c :: nat) \<in> {9, 10, 11, 12, 13, 28, 29, 30, 31, 32, 133, 160})"

definition py_strip :: "string \<Rightarrow> string" where
  "py_strip s = rev (dropWhile py_isspace (rev (dropWhile py_isspace s)))"

text \<open>\<open>sub in s\<close>: \<open>sub\<close> occurs in \<open>s\<close> as a contiguous substring.\<close>

fun py_in :: "string \<Rightarrow> string \<Rightarrow> bool" where
  "py_in sub [] = (sub = [])"
| "py_in sub (c # cs) = (prefix sub (c # cs) \<or> py_in sub cs)"

definition py_startswith :: "string \<Rightarrow> string \<Rightarrow> bool" where
  "py_startswith s p = prefix p s"

definition py_endswith :: "string \<Rightarrow> string \<Rightarrow> bool" where
  "py_endswith s e = suffix e s"

text \<open>
  The leftmost occurrence of a separator: the text before it and the text after it.
  \<open>s.split(sep, 1)\<close> is built on it, and \<open>s.split(sep)\<close> repeats it on the rest. The
  separators of the program are non-empty literals (Python raises \<open>ValueError\<close> on an
  empty one); \<open>py_split\<close> returns the text unsplit there.
\<close>

fun split_once :: "string \<Rightarrow> string \<Rightarrow> (string \<times> string) option" where
  "split_once sep [] = (if sep = [] then Some ([], []) else None)"
| "split_once sep (c # cs) =
     (if prefix sep (c # cs) then Some ([], drop (length sep) (c # cs))
      else (case split_once sep cs of None \<Rightarrow> None | Some (a, b) \<Rightarrow> Some (c # a, b)))"

definition py_split1 :: "string \<Rightarrow> string \<Rightarrow> string list" where
  "py_split1 sep s = (case split_once sep s of None \<Rightarrow> [s] | Some (a, b) \<Rightarrow> [a, b])"

lemma split_once_shorter:
  "split_once sep s = Some (a, b) \<Longrightarrow> sep \<noteq> [] \<Longrightarrow> length b < length s"
proof (induction s arbitrary: a b)
  case Nil
  then show ?case by simp
next
  case (Cons c cs)
  show ?case
  proof (cases "prefix sep (c # cs)")
    case True
    with Cons.prems show ?thesis by auto
  next
    case False
    with Cons.prems obtain a' where "split_once sep cs = Some (a', b)"
      by (auto split: option.splits)
    with Cons.IH Cons.prems(2) show ?thesis by fastforce
  qed
qed

function py_split :: "string \<Rightarrow> string \<Rightarrow> string list" where
  "py_split sep s =
     (if sep = [] then [s]
      else (case split_once sep s of None \<Rightarrow> [s] | Some (a, b) \<Rightarrow> a # py_split sep b))"
  by pat_completeness auto
termination
  by (relation "measure (\<lambda>(sep, s). length s)") (auto dest: split_once_shorter)

declare py_split.simps [simp del]

fun py_join :: "string \<Rightarrow> string list \<Rightarrow> string" where
  "py_join sep [] = []"
| "py_join sep [x] = x"
| "py_join sep (x # y # ys) = x @ sep @ py_join sep (y # ys)"

definition digit_char :: "nat \<Rightarrow> char" where
  "digit_char d = ''0123456789'' ! d"

fun str_nat :: "nat \<Rightarrow> string" where
  "str_nat n = (if n < 10 then [digit_char n] else str_nat (n div 10) @ [digit_char (n mod 10)])"

declare str_nat.simps [simp del]

definition str_int :: "int \<Rightarrow> string" where
  "str_int i = (if i < 0 then CHR ''-'' # str_nat (nat (- i)) else str_nat (nat i))"

text \<open>\<open>'{x}'\<close> inside an f-string, and the line feed.\<close>

definition quoted :: "string \<Rightarrow> string" where
  "quoted s = [CHR 0x27] @ s @ [CHR 0x27]"

definition nl :: string where
  "nl = [CHR 0x0A]"

text \<open>The exceptions that leave a function of the program uncaught.\<close>

datatype exn = IndexError | LibraryError string

definition py_index :: "'a list \<Rightarrow> nat \<Rightarrow> exn + 'a" where
  "py_index xs i = (if i < length xs then Inr (xs ! i) else Inl IndexError)"

text \<open>Truthiness of an environment variable: \<open>None\<close> and the empty string are false.\<close>

fun truthy_str :: "string option \<Rightarrow> bool" where
  "truthy_str None = False"
| "truthy_str (Some s) = (s \<noteq> [])"

fun fmt_opt :: "string option \<Rightarrow> string" where
  "fmt_opt None = ''None''"
| "fmt_opt (Some s) = s"

section \<open>The CI server and its environment (jenkins_tool.py)\<close>

datatype http_method = GET | POST

record request =
  meth :: http_method
  url :: string
  data :: "string option"
  headers :: "(string \<times> string) list"
  auth :: "(string \<times> string) option"

text \<open>
  What a call of \<open>requests.get\<close> or \<open>requests.post\<close> gives: a response with its status code,
  its text and its decoded JSON body, or an exception with its message. The JSON body is
  \<open>Inl msg\<close> when \<open>response.json()\<close> (or \<open>.get\<close> on what it decodes to) raises, and otherwise
  the decoded object, each value as Python formats it in an f-string.
\<close>

datatype http_outcome =
  Response int string "string + (string \<rightharpoonup> string)"
| HttpError string

text \<open>
  The module's globals, read from the process environment at import, and the world the
  module talks to: the server's answer to each request, the result of the
  \<open>requests.utils.b64encode\<close> lookup and call (code of the \<open>requests\<close> package, outside the
  repository: \<open>Inl\<close> when it raises), and the order in which a Python \<open>set\<close> of strings is
  iterated, given by the rank of each string (hashing is seeded per process).
\<close>

record jenkins_env =
  JENKINS_BASE_URL :: string
  JENKINS_USERNAME :: "string option"
  JENKINS_API_TOKEN :: "string option"
  http :: "request \<Rightarrow> http_outcome"
  b64encode :: "string \<Rightarrow> exn + string"
  set_rank :: "string \<Rightarrow> nat"

text \<open>\<open>all([JENKINS_USERNAME, JENKINS_API_TOKEN])\<close>\<close>

definition credentials_configured :: "jenkins_env \<Rightarrow> bool" where
  "credentials_configured env =
     (truthy_str (JENKINS_USERNAME env) \<and> truthy_str (JENKINS_API_TOKEN env))"

definition basic_auth :: "jenkins_env \<Rightarrow> (string \<times> string) option" where
  "basic_auth env = Some (fmt_opt (JENKINS_USERNAME env), fmt_opt (JENKINS_API_TOKEN env))"

definition not_configured_long :: string where
  "not_configured_long =
     ''Jenkins credentials not configured. Please set JENKINS_USERNAME and JENKINS_API_TOKEN.''"

definition not_configured_short :: string where
  "not_configured_short = ''Jenkins credentials not configured.''"

text \<open>
  Every operation returns its result text together with the list of the HTTP requests it
  issued, in order.
\<close>

definition create_request :: "jenkins_env \<Rightarrow> string \<Rightarrow> string \<Rightarrow> string \<Rightarrow> request" where
  "create_request env job_name job_config token =
     \<lparr> meth = POST,
       url = JENKINS_BASE_URL env @ ''/createItem?name='' @ job_name,
       data = Some job_config,
       headers = [(''Content-Type'', ''application/xml''),
                  (''Authorization'', ''Basic '' @ token)],
       auth = None \<rparr>"

definition create_jenkins_job ::
  "jenkins_env \<Rightarrow> string \<Rightarrow> string \<Rightarrow> (exn + string) \<times> request list" where
  "create_jenkins_job env job_name job_config =
     (if \<not> credentials_configured env then (Inr not_configured_long, [])
      else
        (case b64encode env
                (fmt_opt (JENKINS_USERNAME env) @ '':'' @ fmt_opt (JENKINS_API_TOKEN env)) of
           Inl e \<Rightarrow> (Inl e, [])
         | Inr token \<Rightarrow>
             (let req = create_request env job_name job_config token in
              (Inr (case http env req of
                      HttpError msg \<Rightarrow>
                        ''Error creating job '' @ quoted job_name @ '': '' @ msg
                    | Response code txt js \<Rightarrow>
                        if code = 200 then
                          ''Jenkins job '' @ quoted job_name @ '' created successfully.''
                        else if code = 400 then
                          ''Invalid job configuration for '' @ quoted job_name @ ''.''
                        else
                          ''Failed to create job '' @ quoted job_name @ ''. Status: ''
                            @ str_int code),
               [req]))))"

definition trigger_request :: "jenkins_env \<Rightarrow> string \<Rightarrow> request" where
  "trigger_request env job_name =
     \<lparr> meth = POST,
       url = JENKINS_BASE_URL env @ ''/job/'' @ job_name @ ''/build'',
       data = None, headers = [], auth = basic_auth env \<rparr>"

definition trigger_jenkins_job :: "jenkins_env \<Rightarrow> string \<Rightarrow> string \<times> request list" where
  "trigger_jenkins_job env job_name =
     (if \<not> credentials_configured env then (not_configured_long, [])
      else
        (let req = trigger_request env job_name in
         (case http env req of
            HttpError msg \<Rightarrow> ''Error triggering job '' @ quoted job_name @ '': '' @ msg
          | Response code txt js \<Rightarrow>
              if code = 201 then
                ''Jenkins job '' @ quoted job_name @ '' triggered successfully.''
              else if code = 403 then
                ''Permission denied. Check your Jenkins credentials and token.''
              else if code = 404 then
                ''Job '' @ quoted job_name @ '' not found on Jenkins server.''
              else
                ''Failed to trigger Jenkins job '' @ quoted job_name @ ''. Status code: ''
                  @ str_int code,
          [req])))"

definition status_request :: "jenkins_env \<Rightarrow> string \<Rightarrow> request" where
  "status_request env job_name =
     \<lparr> meth = GET,
       url = JENKINS_BASE_URL env @ ''/job/'' @ job_name @ ''/lastBuild/api/json'',
       data = None, headers = [], auth = basic_auth env \<rparr>"

definition dict_get :: "(string \<rightharpoonup> string) \<Rightarrow> string \<Rightarrow> string \<Rightarrow> string" where
  "dict_get d k dflt = (case d k of None \<Rightarrow> dflt | Some v \<Rightarrow> v)"

definition get_job_status :: "jenkins_env \<Rightarrow> string \<Rightarrow> string \<times> request list" where
  "get_job_status env job_name =
     (if \<not> credentials_configured env then (not_configured_short, [])
      else
        (let req = status_request env job_name in
         (case http env req of
            HttpError msg \<Rightarrow> ''Error getting job status: '' @ msg
          | Response code txt js \<Rightarrow>
              if code = 200 then
                (case js of
                   Inl msg \<Rightarrow> ''Error getting job status: '' @ msg
                 | Inr build_info \<Rightarrow>
                     ''Job '' @ quoted job_name @ '' build #''
                       @ dict_get build_info ''number'' ''N/A'' @ '': ''
                       @ dict_get build_info ''result'' ''IN_PROGRESS'')
              else if code = 404 then
                ''Job '' @ quoted job_name @ '' not found or no builds exist.''
              else
                ''Failed to get job status. Status code: '' @ str_int code,
          [req])))"

definition logs_request :: "jenkins_env \<Rightarrow> string \<Rightarrow> int option \<Rightarrow> request" where
  "logs_request env job_name build_number =
     \<lparr> meth = GET,
       url = (case build_number of
                None \<Rightarrow> JENKINS_BASE_URL env @ ''/job/'' @ job_name @ ''/lastBuild/consoleText''
              | Some n \<Rightarrow> JENKINS_BASE_URL env @ ''/job/'' @ job_name @ ''/'' @ str_int n
                           @ ''/consoleText''),
       data = None, headers = [], auth = basic_auth env \<rparr>"

definition truncation_marker :: string where
  "truncation_marker = nl @ ''... (truncated)''"

definition truncate_logs :: "string \<Rightarrow> string" where
  "truncate_logs logs =
     (if length logs > 2000 then take 2000 logs @ truncation_marker else logs)"

definition logs_header :: "string \<Rightarrow> string" where
  "logs_header job_name = ''Build logs for '' @ quoted job_name @ '':'' @ nl"

definition get_build_logs ::
  "jenkins_env \<Rightarrow> string \<Rightarrow> int option \<Rightarrow> string \<times> request list" where
  "get_build_logs env job_name build_number =
     (if \<not> credentials_configured env then (not_configured_short, [])
      else
        (let req = logs_request env job_name build_number in
         (case http env req of
            HttpError msg \<Rightarrow> ''Error getting build logs: '' @ msg
          | Response code txt js \<Rightarrow>
              if code = 200 then logs_header job_name @ truncate_logs txt
              else if code = 404 then
                ''Build logs not found for '' @ quoted job_name @ ''.''
              else
                ''Failed to get build logs. Status code: '' @ str_int code,
          [req])))"

subsection \<open>The error analyzer\<close>

definition error_patterns :: "(string \<times> string list) list" where
  "error_patterns =
     [(''Compilation Error'', [''error:'', ''Error:'', ''compilation failed'']),
      (''Dependency Issue'', [''ModuleNotFoundError'', ''ImportError'', ''npm ERR'', ''pip install'']),
      (''Permission Error'', [''Permission denied'', ''access denied'', ''EACCES'']),
      (''Network Error'', [''Connection refused'', ''timeout'', ''network error'']),
      (''Build Tool Error'', [''maven'', ''gradle'', ''npm'', ''yarn'']),
      (''Test Failure'', [''FAILED'', ''AssertionError'', ''test failed''])]"

text \<open>The inner loop: true as soon as one pattern of the category occurs (the \<open>break\<close>).\<close>

fun pattern_hit :: "string list \<Rightarrow> string \<Rightarrow> bool" where
  "pattern_hit [] logs = False"
| "pattern_hit (p # ps) logs =
     (if py_in (py_lower p) (py_lower logs) then True else pattern_hit ps logs)"

text \<open>The outer loop over \<open>error_patterns.items()\<close>, appending to \<open>found_errors\<close>.\<close>

fun scan_patterns :: "(string \<times> string list) list \<Rightarrow> string \<Rightarrow> string list \<Rightarrow> string list" where
  "scan_patterns [] logs found = found"
| "scan_patterns ((error_type, patterns) # rest) logs found =
     scan_patterns rest logs (if pattern_hit patterns logs then found @ [error_type] else found)"

definition found_errors :: "string \<Rightarrow> string list" where
  "found_errors logs = scan_patterns error_patterns logs []"

text \<open>
  Iterating \<open>set(xs)\<close>: every distinct element once, in the order of the process's ranks
  (any order of the elements is the order of some rank function).
\<close>

definition py_set_iter :: "(string \<Rightarrow> nat) \<Rightarrow> string list \<Rightarrow> string list" where
  "py_set_iter rank xs = sort_key rank (remdups xs)"

definition reported_issues :: "jenkins_env \<Rightarrow> string \<Rightarrow> string list" where
  "reported_issues env logs = py_set_iter (set_rank env) (found_errors logs)"

text \<open>Lines 132 to 151 of the analyzer: the report on the log text it was given.\<close>

definition error_report :: "jenkins_env \<Rightarrow> string \<Rightarrow> string \<Rightarrow> string" where
  "error_report env job_name logs =
     (if found_errors logs \<noteq> [] then
        ''Error Analysis for '' @ quoted job_name @ '':'' @ nl @ ''Found issues: ''
          @ py_join '', '' (reported_issues env logs) @ nl @ nl @ ''Full logs:'' @ nl @ logs
      else
        ''No common errors detected in '' @ quoted job_name @ '' build logs.'' @ nl @ nl
          @ ''Logs:'' @ nl @ logs)"

text \<open>
  \<open>logs_response.split("Build logs for")[1].split("\n", 1)[1] if "Build logs for" in
  logs_response else ""\<close>
\<close>

definition extract_logs :: "string \<Rightarrow> exn + string" where
  "extract_logs logs_response =
     (if py_in ''Build logs for'' logs_response then
        (case py_index (py_split ''Build logs for'' logs_response) 1 of
           Inl e \<Rightarrow> Inl e
         | Inr piece \<Rightarrow> py_index (py_split1 nl piece) 1)
      else Inr [])"

definition analyze_build_errors ::
  "jenkins_env \<Rightarrow> string \<Rightarrow> (exn + string) \<times> request list" where
  "analyze_build_errors env job_name =
     (if \<not> credentials_configured env then (Inr not_configured_short, [])
      else
        (case get_build_logs env job_name None of
           (logs_response, reqs) \<Rightarrow>
             if py_startswith logs_response ''Error'' then (Inr logs_response, reqs)
             else
               (case extract_logs logs_response of
                  Inl e \<Rightarrow> (Inl e, reqs)
                | Inr logs \<Rightarrow> (Inr (error_report env job_name logs), reqs))))"

subsection \<open>The router\<close>

definition job_template :: "string \<Rightarrow> string" where
  \<open>job_template job_name =
     ''<?xml version='1.1' encoding='UTF-8'?>'' @ nl
     @ ''<project>'' @ nl
     @ ''  <description>Auto-generated job for '' @ job_name @ ''</description>'' @ nl
     @ ''  <builders>'' @ nl
     @ ''    <hudson.tasks.Shell>'' @ nl
     @ ''      <command>echo "Hello from '' @ job_name @ ''!"'' @ nl
     @ ''echo "Build started at $(date)"'' @ nl
     @ ''echo "Build completed successfully"</command>'' @ nl
     @ ''    </hudson.tasks.Shell>'' @ nl
     @ ''  </builders>'' @ nl
     @ ''</project>''\<close>

definition help_text :: "string \<Rightarrow> string" where
  "help_text job_name =
     ''Available operations for job '' @ quoted job_name
       @ '': trigger, status, logs, analyze, create''"

definition returned :: "string \<times> request list \<Rightarrow> (exn + string) \<times> request list" where
  "returned r = (Inr (fst r), snd r)"

definition jenkins_operations ::
  "jenkins_env \<Rightarrow> string \<Rightarrow> string \<Rightarrow> (exn + string) \<times> request list" where
  "jenkins_operations env job_name operation =
     (let operation = py_strip (py_lower operation) in
      if py_in ''trigger'' operation \<or> py_in ''build'' operation \<or> py_in ''run'' operation then
        returned (trigger_jenkins_job env job_name)
      else if py_in ''status'' operation \<or> py_in ''check'' operation then
        returned (get_job_status env job_name)
      else if py_in ''logs'' operation \<or> py_in ''output'' operation then
        returned (get_build_logs env job_name None)
      else if py_in ''error'' operation \<or> py_in ''analyze'' operation
              \<or> py_in ''debug'' operation then
        analyze_build_errors env job_name
      else if py_in ''create'' operation then
        create_jenkins_job env job_name (job_template job_name)
      else (Inr (help_text job_name), []))"

subsection \<open>Concrete environments\<close>

text \<open>
  A server that gives the same answer to every request, and an environment with both
  credentials set that talks to it; the same environment without the API token.
\<close>

definition fixed_server :: "http_outcome \<Rightarrow> request \<Rightarrow> http_outcome" where
  "fixed_server out req = out"

definition demo_b64 :: "string \<Rightarrow> exn + string" where
  "demo_b64 s = Inr ''YWRtaW46c2VjcmV0''"

definition demo_env :: "http_outcome \<Rightarrow> jenkins_env" where
  "demo_env out =
     \<lparr> JENKINS_BASE_URL = ''http://localhost:8080'',
       JENKINS_USERNAME = Some ''admin'',
       JENKINS_API_TOKEN = Some ''secret'',
       http = fixed_server out,
       b64encode = demo_b64,
       set_rank = length \<rparr>"

definition no_token_env :: "http_outcome \<Rightarrow> jenkins_env" where
  "no_token_env out = (demo_env out) \<lparr> JENKINS_API_TOKEN := None \<rparr>"

definition no_json :: "string + (string \<rightharpoonup> string)" where
  "no_json = Inl ''Expecting value''"

definition build_7 :: "string + (string \<rightharpoonup> string)" where
  "build_7 = Inr [''number'' \<mapsto> ''7'', ''result'' \<mapsto> ''SUCCESS'']"

subsection \<open>A console log that quotes the header phrase\<close>

definition phrase_log :: string where
  "phrase_log = ''step 1 Build logs for module A'' @ replicate 2000 CHR ''.'' @ ''FAILED''"

text \<open>A console log whose category matches all lie after position 2000.\<close>

definition late_log :: string where
  "late_log = replicate 2000 CHR ''.'' @ ''ModuleNotFoundError FAILED''"

section \<open>The indexer (code_indexer.py)\<close>

record document =
  page_content :: string
  source :: string
  chunk_id :: nat
  language :: string

text \<open>
  What the directory \<open>chroma_store\<close> holds: nothing (no directory), a persisted store
  generation, or the remains of an interrupted removal or write.
\<close>

datatype store = NoStore | Store "document list" | Broken

record disk =
  chroma_store :: store
  unzipped :: bool

text \<open>
  A file met by \<open>os.walk("unzipped")\<close>: its directory, its name, and the text \<open>f.read()\<close>
  gives (\<open>None\<close> when opening or reading raises).
\<close>

record src_file =
  root :: string
  name :: string
  content :: "string option"

text \<open>One \<open>shutil.rmtree\<close> attempt on the store, with what it leaves on disk when it raises.\<close>

datatype rm_outcome = Removed | PermissionError store | RmError string store

text \<open>
  Creating the embedding function and writing the store: done, or an exception with its
  message, raised before or after the store directory was created.
\<close>

datatype store_outcome = Stored | StoreFailed string bool

text \<open>
  The world of one run. \<open>rmtree_store k\<close> is the outcome of the attempt number \<open>k\<close> to remove
  the store. \<open>extractall zip_path\<close> is the exception message of opening or extracting the
  archive, or the tree under \<open>unzipped\<close> after the extraction as \<open>os.walk\<close> lists it
  (\<open>None\<close> when the directory does not exist: an archive without members creates none).
  \<open>text_splitter chunk_size chunk_overlap\<close> is \<open>split_text\<close> of the
  \<open>RecursiveCharacterTextSplitter\<close> built with these two numbers, code of the
  \<open>langchain_text_splitters\<close> package. Removing \<open>unzipped\<close> when it exists succeeds.
\<close>

record indexer_env =
  rmtree_store :: "nat \<Rightarrow> rm_outcome"
  extractall :: "string \<Rightarrow> string + src_file list option"
  os_sep :: string
  text_splitter :: "nat \<Rightarrow> nat \<Rightarrow> string \<Rightarrow> string list"
  embed_and_persist :: store_outcome

definition EXTENSIONS :: "(string \<times> string list) list" where
  "EXTENSIONS =
     [(''Python'', [''.py'']),
      (''JavaScript'', [''.js'', ''.jsx'', ''.ts'', ''.tsx'']),
      (''Java'', [''.java'']),
      (''Markdown'', [''.md'']),
      (''Text'', [''.txt'']),
      (''All'', [''.py'', ''.js'', ''.jsx'', ''.ts'', ''.tsx'', ''.java'', ''.md'', ''.txt'',
                 ''.json'', ''.yaml'', ''.yml'', ''.xml'', ''.html'', ''.css''])]"

text \<open>\<open>EXTENSIONS.get(language, EXTENSIONS["All"])\<close>\<close>

definition valid_exts :: "string \<Rightarrow> string list" where
  "valid_exts lang =
     (case map_of EXTENSIONS lang of
        Some exts \<Rightarrow> exts
      | None \<Rightarrow> (case map_of EXTENSIONS ''All'' of Some exts \<Rightarrow> exts | None \<Rightarrow> []))"

text \<open>
  \<open>force_delete\<close>, entered when the store exists: up to \<open>retries\<close> attempts, the next one
  after a \<open>PermissionError\<close>, then \<open>RuntimeError\<close>. The result is the store left on disk and
  the message of the exception raised, if any.
\<close>

fun force_delete :: "indexer_env \<Rightarrow> store \<Rightarrow> nat \<Rightarrow> nat \<Rightarrow> store \<times> string option" where
  "force_delete env st attempt 0 =
     (st, Some ''Failed to delete chroma_store after 3 retries.'')"
| "force_delete env st attempt (Suc remaining) =
     (if st = NoStore then (st, None)
      else (case rmtree_store env attempt of
              Removed \<Rightarrow> (NoStore, None)
            | PermissionError left \<Rightarrow> force_delete env left (Suc attempt) remaining
            | RmError msg left \<Rightarrow> (left, Some msg)))"

text \<open>The condition on a walked file: an allowed ending, readable, not blank.\<close>

definition has_valid_ext :: "string list \<Rightarrow> string \<Rightarrow> bool" where
  "has_valid_ext exts file = list_ex (\<lambda>ext. py_endswith file ext) exts"

definition path_join :: "indexer_env \<Rightarrow> string \<Rightarrow> string \<Rightarrow> string" where
  "path_join env r file = r @ os_sep env @ file"

text \<open>The walk: the pairs of \<open>docs\<close> and \<open>file_paths\<close>, which grow together.\<close>

fun collect :: "indexer_env \<Rightarrow> string list \<Rightarrow> src_file list \<Rightarrow> (string \<times> string) list" where
  "collect env exts [] = []"
| "collect env exts (f # fs) =
     (if has_valid_ext exts (name f) then
        (case content f of
           None \<Rightarrow> collect env exts fs
         | Some c \<Rightarrow>
             if py_strip c \<noteq> [] then (c, path_join env (root f) (name f)) # collect env exts fs
             else collect env exts fs)
      else collect env exts fs)"

definition walk :: "src_file list option \<Rightarrow> src_file list" where
  "walk tree = (case tree of None \<Rightarrow> [] | Some files \<Rightarrow> files)"

text \<open>
  \<open>splitter = RecursiveCharacterTextSplitter(chunk_size=1000, chunk_overlap=100,
  length_function=len)\<close> and its \<open>split_text\<close>.
\<close>

definition split_text :: "indexer_env \<Rightarrow> string \<Rightarrow> string list" where
  "split_text env text = text_splitter env 1000 100 text"

text \<open>The documents of one file: one per chunk, numbered from 0.\<close>

definition file_documents :: "indexer_env \<Rightarrow> string \<Rightarrow> string \<times> string \<Rightarrow> document list" where
  "file_documents env lang cf =
     map (\<lambda>(j, chunk). \<lparr> page_content = chunk, source = snd cf, chunk_id = j, language = lang \<rparr>)
       (enumerate 0 (split_text env (fst cf)))"

definition all_documents ::
  "indexer_env \<Rightarrow> string \<Rightarrow> (string \<times> string) list \<Rightarrow> document list" where
  "all_documents env lang docs = concat (map (file_documents env lang) docs)"

definition no_files_message :: string where
  "no_files_message = ''No supported code files found for indexing.''"

definition indexing_error :: "string \<Rightarrow> string" where
  "indexing_error msg = ''Error during indexing: '' @ msg"

definition rmtree_missing :: string where
  "rmtree_missing = ''[Errno 2] No such file or directory: '' @ quoted ''unzipped''"

definition unzip_and_index ::
  "indexer_env \<Rightarrow> disk \<Rightarrow> string \<Rightarrow> string \<Rightarrow> string \<times> disk" where
  "unzip_and_index env d zip_path lang =
     (case force_delete env (chroma_store d) 0 3 of
        (left, Some msg) \<Rightarrow>
          (indexing_error msg, \<lparr> chroma_store = left, unzipped = False \<rparr>)
      | (left, None) \<Rightarrow>
          (case extractall env zip_path of
             Inl msg \<Rightarrow> (indexing_error msg, \<lparr> chroma_store = left, unzipped = False \<rparr>)
           | Inr tree \<Rightarrow>
               (let docs = collect env (valid_exts lang) (walk tree) in
                if docs = [] then
                  (if tree = None then indexing_error rmtree_missing else no_files_message,
                   \<lparr> chroma_store = left, unzipped = False \<rparr>)
                else
                  (let documents = all_documents env lang docs in
                   (case embed_and_persist env of
                      StoreFailed msg created \<Rightarrow>
                        (indexing_error msg,
                         \<lparr> chroma_store = (if created then Broken else left),
                           unzipped = False \<rparr>)
                    | Stored \<Rightarrow>
                        (''Indexed '' @ str_nat (length docs) @ '' files and stored ''
                           @ str_nat (length documents) @ '' document chunks.'',
                         \<lparr> chroma_store = Store documents, unzipped = False \<rparr>))))))"

text \<open>The store with the language tag of every chunk replaced.\<close>

definition retag :: "string \<Rightarrow> store \<Rightarrow> store" where
  "retag lang st =
     (case st of
        Store ds \<Rightarrow> Store (map (\<lambda>doc. doc \<lparr> language := lang \<rparr>) ds)
      | NoStore \<Rightarrow> NoStore
      | Broken \<Rightarrow> Broken)"

subsection \<open>The splitter\<close>

text \<open>
  Modelled from the spec: the splitter itself, \<open>RecursiveCharacterTextSplitter.split_text\<close>,
  is code of the \<open>langchain_text_splitters\<close> package and not in the repository. The spec
  describes it as a length-based splitter, not by syntax, that cuts the content into
  chunks of at most the chunk size, in order, each overlapping the previous one by the
  overlap: a text that fits is one chunk, and a longer one gives its first
  \<open>chunk_size\<close> characters and the chunks of the text from position
  \<open>chunk_size - chunk_overlap\<close> on.
\<close>

function spec_split_text :: "nat \<Rightarrow> nat \<Rightarrow> string \<Rightarrow> string list" where
  "spec_split_text chunk_size chunk_overlap s =
     (if length s \<le> chunk_size \<or> chunk_size \<le> chunk_overlap then [s]
      else take chunk_size s
             # spec_split_text chunk_size chunk_overlap (drop (chunk_size - chunk_overlap) s))"
  by pat_completeness auto
termination
  by (relation "measure (\<lambda>(chunk_size, chunk_overlap, s). length s)") auto

declare spec_split_text.simps [simp del]

subsection \<open>Concrete runs of the indexer\<close>

definition always_removed :: "nat \<Rightarrow> rm_outcome" where
  "always_removed k = Removed"

definition readme_only :: "string \<Rightarrow> string + src_file list option" where
  "readme_only zip_path =
     Inr (Some [\<lparr> root = ''unzipped'', name = ''README.rst'', content = Some ''hello'' \<rparr>])"

definition demo_indexer :: indexer_env where
  "demo_indexer =
     \<lparr> rmtree_store = always_removed,
       extractall = readme_only,
       os_sep = ''/'',
       text_splitter = spec_split_text,
       embed_and_persist = Stored \<rparr>"

definition old_store :: store where
  "old_store =
     Store [\<lparr> page_content = ''print(1)'', source = ''unzipped/a.py'', chunk_id = 0,
              language = ''Python'' \<rparr>]"

definition old_disk :: disk where
  "old_disk = \<lparr> chroma_store = old_store, unzipped = False \<rparr>"

text \<open>The condition under which the walk collects a file.\<close>

definition eligible :: "string list \<Rightarrow> src_file \<Rightarrow> bool" where
  "eligible exts f =
     (has_valid_ext exts (name f) \<and>
      (case content f of None \<Rightarrow> False | Some c \<Rightarrow> py_strip c \<noteq> []))"

definition main_and_readme :: "string \<Rightarrow> string + src_file list option" where
  "main_and_readme zip_path =
     Inr (Some [\<lparr> root = ''unzipped'', name = ''main.py'', content = Some ''print(1)'' \<rparr>,
                \<lparr> root = ''unzipped'', name = ''README.rst'', content = Some ''hello'' \<rparr>])"

definition main_indexer :: indexer_env where
  "main_indexer = demo_indexer \<lparr> extractall := main_and_readme \<rparr>"

text \<open>
  An archive with a file of 1001 characters and a file of 1000 characters, and the run
  over it.
\<close>

definition two_sizes :: "string \<Rightarrow> string + src_file list option" where
  "two_sizes zip_path =
     Inr (Some [\<lparr> root = ''unzipped'', name = ''big.py'',
                  content = Some (replicate 1001 CHR ''a'') \<rparr>,
                \<lparr> root = ''unzipped'', name = ''edge.py'',
                  content = Some (replicate 1000 CHR ''b'') \<rparr>])"

definition sizes_indexer :: indexer_env where
  "sizes_indexer = demo_indexer \<lparr> extractall := two_sizes \<rparr>"

text \<open>An archive without members: the extraction succeeds and creates no directory.\<close>

definition no_members :: "string \<Rightarrow> string + src_file list option" where
  "no_members zip_path = Inr None"

definition empty_indexer :: indexer_env where
  "empty_indexer = demo_indexer \<lparr> extractall := no_members \<rparr>"

subsection \<open>What a store holds of one file\<close>

definition stored_documents :: "store \<Rightarrow> document list" where
  "stored_documents st = (case st of Store ds \<Rightarrow> ds | NoStore \<Rightarrow> [] | Broken \<Rightarrow> [])"

definition chunks_of :: "string \<Rightarrow> store \<Rightarrow> document list" where
  "chunks_of path st = filter (\<lambda>doc. source doc = path) (stored_documents st)"

text \<open>
  The chunk count as the spec words it: 1 for a length of at most 1000, and the ceiling
  of (L - 100) / 900 above.
\<close>

definition spec_chunk_count :: "nat \<Rightarrow> nat" where
  "spec_chunk_count L = (if L \<le> 1000 then 1 else (L - 100 + 899) div 900)"

section \<open>The retrieval tool adapter (agent_runner.py)\<close>

text \<open>
  The values a tool payload is made of. A dictionary is the list of its items in
  insertion order.
\<close>

datatype pyval =
  PNone
| PBool bool
| PInt int
| PStr string
| PList "pyval list"
| PDict "(string \<times> pyval) list"

fun truthy :: "pyval \<Rightarrow> bool" where
  "truthy PNone = False"
| "truthy (PBool b) = b"
| "truthy (PInt i) = (i \<noteq> 0)"
| "truthy (PStr s) = (s \<noteq> [])"
| "truthy (PList xs) = (xs \<noteq> [])"
| "truthy (PDict items) = (items \<noteq> [])"

text \<open>The loop over the keys: the value of the first key that is present with a true value.\<close>

fun first_truthy :: "string list \<Rightarrow> (string \<times> pyval) list \<Rightarrow> pyval option" where
  "first_truthy [] items = None"
| "first_truthy (key # keys) items =
     (case map_of items key of
        Some v \<Rightarrow> if truthy v then Some v else first_truthy keys items
      | None \<Rightarrow> first_truthy keys items)"

text \<open>
  The adapter returns \<open>{"query": v}\<close>; the model returns \<open>v\<close>. Python's \<open>str\<close> on a
  payload is the parameter \<open>str_of\<close>.
\<close>

definition universal_input_adapter :: "(pyval \<Rightarrow> string) \<Rightarrow> pyval \<Rightarrow> pyval" where
  "universal_input_adapter str_of input_data =
     (case input_data of
        PDict items \<Rightarrow>
          (case first_truthy [''query'', ''input'', ''page_content''] items of
             Some v \<Rightarrow> v
           | None \<Rightarrow>
               if items \<noteq> [] then snd (hd items) else PStr (str_of input_data))
      | _ \<Rightarrow> PStr (str_of input_data))"

definition present :: "(string \<times> pyval) list \<Rightarrow> string \<Rightarrow> bool" where
  "present items key = (case map_of items key of Some v \<Rightarrow> truthy v | None \<Rightarrow> False)"

text \<open>
  Python's \<open>str\<close> on the payloads of the examples: a string is itself; \<open>None\<close>, a boolean,
  an integer and an empty container print as below. Non-empty containers are not among
  the examples and are shown as dots.
\<close>

fun sample_str :: "pyval \<Rightarrow> string" where
  "sample_str PNone = ''None''"
| "sample_str (PBool b) = (if b then ''True'' else ''False'')"
| "sample_str (PInt i) = str_int i"
| "sample_str (PStr s) = s"
| "sample_str (PList xs) = (if xs = [] then ''[]'' else ''[...]'')"
| "sample_str (PDict items) = (if items = [] then ''{}'' else ''{...}'')"

section \<open>Properties of the text functions\<close>

lemma py_in_sublist: "py_in sub s \<longleftrightarrow> sublist sub s"
  by (induction s) (auto simp: sublist_Cons_right)

lemma sublist_skip_front:
  assumes "\<forall>x\<in>set a. P x" "\<forall>x\<in>set kw. \<not> P x" "kw \<noteq> []"
  shows "sublist kw (a @ t) \<longleftrightarrow> sublist kw t"
  using assms
proof (induction a)
  case Nil
  then show ?case by simp
next
  case (Cons x a)
  then obtain k ks where kw: "kw = k # ks" by (cases kw) auto
  with Cons.prems have "k \<noteq> x" by auto
  then have "\<not> prefix kw ((x # a) @ t)" by (simp add: kw)
  with Cons show ?case by (simp add: sublist_Cons_right)
qed

lemma sublist_dropWhile:
  assumes "\<forall>x\<in>set kw. \<not> P x" "kw \<noteq> []"
  shows "sublist kw (dropWhile P s) \<longleftrightarrow> sublist kw s"
proof -
  have "sublist kw (takeWhile P s @ dropWhile P s) \<longleftrightarrow> sublist kw (dropWhile P s)"
    by (rule sublist_skip_front[where P = P]) (use assms in \<open>auto dest: set_takeWhileD\<close>)
  then show ?thesis by simp
qed

text \<open>Stripping the ends does not change whether a keyword without white space occurs.\<close>

lemma sublist_py_strip:
  assumes "\<forall>x\<in>set kw. \<not> py_isspace x" "kw \<noteq> []"
  shows "sublist kw (py_strip s) \<longleftrightarrow> sublist kw s"
proof -
  have "sublist kw (py_strip s)
          \<longleftrightarrow> sublist (rev kw) (dropWhile py_isspace (rev (dropWhile py_isspace s)))"
    unfolding py_strip_def by (metis sublist_rev rev_rev_ident)
  also have "\<dots> \<longleftrightarrow> sublist (rev kw) (rev (dropWhile py_isspace s))"
    by (rule sublist_dropWhile) (use assms in auto)
  also have "\<dots> \<longleftrightarrow> sublist kw (dropWhile py_isspace s)"
    by (rule sublist_rev)
  also have "\<dots> \<longleftrightarrow> sublist kw s"
    by (rule sublist_dropWhile) (use assms in auto)
  finally show ?thesis .
qed

lemma py_in_strip:
  assumes "\<forall>x\<in>set kw. \<not> py_isspace x" "kw \<noteq> []"
  shows "py_in kw (py_strip s) \<longleftrightarrow> py_in kw s"
  using sublist_py_strip[OF assms] by (simp add: py_in_sublist)

lemma keyword_strip:
  "py_in ''trigger'' (py_strip s) = py_in ''trigger'' s"
  "py_in ''build'' (py_strip s) = py_in ''build'' s"
  "py_in ''run'' (py_strip s) = py_in ''run'' s"
  "py_in ''status'' (py_strip s) = py_in ''status'' s"
  "py_in ''check'' (py_strip s) = py_in ''check'' s"
  "py_in ''logs'' (py_strip s) = py_in ''logs'' s"
  "py_in ''output'' (py_strip s) = py_in ''output'' s"
  "py_in ''error'' (py_strip s) = py_in ''error'' s"
  "py_in ''analyze'' (py_strip s) = py_in ''analyze'' s"
  "py_in ''debug'' (py_strip s) = py_in ''debug'' s"
  "py_in ''create'' (py_strip s) = py_in ''create'' s"
  by (rule py_in_strip; simp add: py_isspace_def)+

lemma py_in_lower: "py_in p s \<Longrightarrow> py_in (py_lower p) (py_lower s)"
  unfolding py_in_sublist py_lower_def sublist_def
  by (metis map_append)

lemma count_list_distinct: "distinct xs \<Longrightarrow> x \<in> set xs \<Longrightarrow> count_list xs x = 1"
  by (induction xs) auto

lemma str_int_403: "str_int 403 = ''403''"
  by (simp add: str_int_def str_nat.simps digit_char_def)

section \<open>Properties of the CI operations\<close>

lemma demo_configured: "credentials_configured (demo_env out)"
  by (simp add: credentials_configured_def demo_env_def)

lemma demo_http: "http (demo_env out) req = out"
  by (simp add: demo_env_def fixed_server_def)

lemma demo_token: "b64encode (demo_env out) s = Inr ''YWRtaW46c2VjcmV0''"
  by (simp add: demo_env_def demo_b64_def)

lemma no_token_unconfigured: "\<not> credentials_configured (no_token_env out)"
  by (simp add: credentials_configured_def no_token_env_def demo_env_def)

text \<open>The router decides on the lower-cased text alone.\<close>

lemma jenkins_operations_lower:
  "jenkins_operations env job_name operation =
     (let t = py_lower operation in
      if py_in ''trigger'' t \<or> py_in ''build'' t \<or> py_in ''run'' t then
        returned (trigger_jenkins_job env job_name)
      else if py_in ''status'' t \<or> py_in ''check'' t then
        returned (get_job_status env job_name)
      else if py_in ''logs'' t \<or> py_in ''output'' t then
        returned (get_build_logs env job_name None)
      else if py_in ''error'' t \<or> py_in ''analyze'' t \<or> py_in ''debug'' t then
        analyze_build_errors env job_name
      else if py_in ''create'' t then
        create_jenkins_job env job_name (job_template job_name)
      else (Inr (help_text job_name), []))"
  unfolding jenkins_operations_def Let_def keyword_strip by (rule refl)

text \<open>
  C2 (as amended). The router lower-cases the operation text and tries the five keyword
  groups in the order trigger/build/run, status/check, logs/output, error/analyze/debug,
  create; the first group with a keyword in the text decides, and a text with none gets
  the help string. A text with both "trigger" and "analyze" takes the trigger branch. A
  text with both "status" and "logs" takes the status branch when it has none of "trigger",
  "build", "run".
\<close>

theorem jenkins_operations_priority:
  "jenkins_operations env job_name operation =
     (let t = py_lower operation in
      if py_in ''trigger'' t \<or> py_in ''build'' t \<or> py_in ''run'' t then
        returned (trigger_jenkins_job env job_name)
      else if py_in ''status'' t \<or> py_in ''check'' t then
        returned (get_job_status env job_name)
      else if py_in ''logs'' t \<or> py_in ''output'' t then
        returned (get_build_logs env job_name None)
      else if py_in ''error'' t \<or> py_in ''analyze'' t \<or> py_in ''debug'' t then
        analyze_build_errors env job_name
      else if py_in ''create'' t then
        create_jenkins_job env job_name (job_template job_name)
      else (Inr (help_text job_name), [])) \<and>
   (py_in ''trigger'' (py_lower operation) \<and> py_in ''analyze'' (py_lower operation) \<longrightarrow>
      jenkins_operations env job_name operation = returned (trigger_jenkins_job env job_name)) \<and>
   (py_in ''status'' (py_lower operation) \<and> py_in ''logs'' (py_lower operation) \<and>
    \<not> py_in ''trigger'' (py_lower operation) \<and> \<not> py_in ''build'' (py_lower operation) \<and>
    \<not> py_in ''run'' (py_lower operation) \<longrightarrow>
      jenkins_operations env job_name operation = returned (get_job_status env job_name))"
  unfolding jenkins_operations_def Let_def keyword_strip by simp

theorem jenkins_operations_priority_witness:
  "py_in ''trigger'' (py_lower ''Trigger, then analyze'') \<and>
   py_in ''analyze'' (py_lower ''Trigger, then analyze'') \<and>
   jenkins_operations (demo_env (Response 201 [] no_json)) ''j'' ''Trigger, then analyze''
     = returned (trigger_jenkins_job (demo_env (Response 201 [] no_json)) ''j'') \<and>
   py_in ''status'' (py_lower ''STATUS and logs'') \<and>
   py_in ''logs'' (py_lower ''STATUS and logs'') \<and>
   \<not> py_in ''trigger'' (py_lower ''STATUS and logs'') \<and>
   \<not> py_in ''build'' (py_lower ''STATUS and logs'') \<and>
   \<not> py_in ''run'' (py_lower ''STATUS and logs'') \<and>
   jenkins_operations (demo_env (Response 200 [] build_7)) ''j'' ''STATUS and logs''
     = returned (get_job_status (demo_env (Response 200 [] build_7)) ''j'')"
  using jenkins_operations_priority
          [of "demo_env (Response 201 [] no_json)" "''j''" "''Trigger, then analyze''"]
        jenkins_operations_priority
          [of "demo_env (Response 200 [] build_7)" "''j''" "''STATUS and logs''"]
  by (simp add: py_lower_def py_lower_char_def)

text \<open>
  C2, the claim as stated, fails: a text with both "status" and "logs" that also has "run"
  triggers a build.
\<close>

theorem status_logs_run_triggers_build:
  "jenkins_operations (demo_env (Response 201 [] no_json)) ''j'' ''status logs of last run''
     = (Inr ''Jenkins job 'j' triggered successfully.'',
        [trigger_request (demo_env (Response 201 [] no_json)) ''j''])"
  by (simp add: jenkins_operations_lower returned_def trigger_jenkins_job_def demo_configured
      demo_http py_lower_def py_lower_char_def quoted_def Let_def)

text \<open>
  C3 (as amended). With credentials configured, each operation maps the HTTP status of
  its own request by its own table. Trigger: 201 success, 403 permission denied, 404 not
  found, any other status a failure text ending in the status code. Status: 200 the build
  summary (or the error text when the body does not decode), 404 not found, any other
  status a failure text ending in the code. Logs: 200 the log text, 404 not found, any
  other status a failure text ending in the code. Create (once the authorization header
  is built): 200 success, 400 invalid configuration, any other status a failure text
  ending in the code.
\<close>

theorem status_code_mapping_per_operation:
  "credentials_configured env \<longrightarrow>
   (http env (trigger_request env job_name) = Response code txt js \<longrightarrow>
      fst (trigger_jenkins_job env job_name) =
        (if code = 201 then ''Jenkins job '' @ quoted job_name @ '' triggered successfully.''
         else if code = 403 then ''Permission denied. Check your Jenkins credentials and token.''
         else if code = 404 then ''Job '' @ quoted job_name @ '' not found on Jenkins server.''
         else ''Failed to trigger Jenkins job '' @ quoted job_name @ ''. Status code: ''
                @ str_int code)) \<and>
   (http env (status_request env job_name) = Response code txt js \<longrightarrow>
      fst (get_job_status env job_name) =
        (if code = 200 then
           (case js of
              Inl msg \<Rightarrow> ''Error getting job status: '' @ msg
            | Inr build_info \<Rightarrow>
                ''Job '' @ quoted job_name @ '' build #''
                  @ dict_get build_info ''number'' ''N/A'' @ '': ''
                  @ dict_get build_info ''result'' ''IN_PROGRESS'')
         else if code = 404 then ''Job '' @ quoted job_name @ '' not found or no builds exist.''
         else ''Failed to get job status. Status code: '' @ str_int code)) \<and>
   (http env (logs_request env job_name build_number) = Response code txt js \<longrightarrow>
      fst (get_build_logs env job_name build_number) =
        (if code = 200 then logs_header job_name @ truncate_logs txt
         else if code = 404 then ''Build logs not found for '' @ quoted job_name @ ''.''
         else ''Failed to get build logs. Status code: '' @ str_int code)) \<and>
   (b64encode env (fmt_opt (JENKINS_USERNAME env) @ '':'' @ fmt_opt (JENKINS_API_TOKEN env))
      = Inr token \<and>
    http env (create_request env job_name job_config token) = Response code txt js \<longrightarrow>
      fst (create_jenkins_job env job_name job_config) =
        Inr (if code = 200 then ''Jenkins job '' @ quoted job_name @ '' created successfully.''
             else if code = 400 then ''Invalid job configuration for '' @ quoted job_name @ ''.''
             else ''Failed to create job '' @ quoted job_name @ ''. Status: '' @ str_int code))"
  by (simp add: trigger_jenkins_job_def get_job_status_def get_build_logs_def
      create_jenkins_job_def Let_def)

theorem status_code_mapping_per_operation_witness:
  "credentials_configured (demo_env (Response 403 [] build_7)) \<and>
   http (demo_env (Response 403 [] build_7))
     (trigger_request (demo_env (Response 403 [] build_7)) ''j'') = Response 403 [] build_7 \<and>
   fst (trigger_jenkins_job (demo_env (Response 403 [] build_7)) ''j'')
     = ''Permission denied. Check your Jenkins credentials and token.'' \<and>
   fst (get_job_status (demo_env (Response 403 [] build_7)) ''j'')
     = ''Failed to get job status. Status code: 403'' \<and>
   fst (get_build_logs (demo_env (Response 403 [] build_7)) ''j'' None)
     = ''Failed to get build logs. Status code: 403'' \<and>
   fst (create_jenkins_job (demo_env (Response 403 [] build_7)) ''j'' ''<project/>'')
     = Inr (''Failed to create job '' @ quoted ''j'' @ ''. Status: 403'')"
  using status_code_mapping_per_operation
          [of "demo_env (Response 403 [] build_7)" "''j''" 403 "[]" build_7 None
              "''YWRtaW46c2VjcmV0''" "''<project/>''"]
  by (simp add: demo_configured demo_http demo_token str_int_403)

text \<open>
  C3, the claim as stated, fails: the status operation has no permission-denied text, and
  403 gets its generic failure text; the trigger operation reports a failure on 200.
\<close>

theorem status_403_is_generic_failure:
  "fst (get_job_status (demo_env (Response 403 [] no_json)) ''j'')
     = ''Failed to get job status. Status code: 403''"
  by (simp add: get_job_status_def demo_configured demo_http str_int_403 Let_def)

text \<open>
  C4. With credentials configured and a 200 answer, the logs operation returns the header
  line followed by the log itself when the log has at most 2000 characters, and by the
  first 2000 characters of the log and the truncation marker when it is longer; a log of
  5000 characters gives the header, 2000 characters and the marker. The router's "logs"
  text reaches this operation for the latest build.
\<close>

theorem get_build_logs_truncation:
  "credentials_configured env \<Longrightarrow>
   http env (logs_request env job_name build_number) = Response 200 logs js \<Longrightarrow>
     fst (get_build_logs env job_name build_number) =
       logs_header job_name @
         (if length logs > 2000 then take 2000 logs @ truncation_marker else logs) \<and>
     (length logs = 5000 \<longrightarrow>
        length (fst (get_build_logs env job_name build_number)) =
          length (logs_header job_name) + 2000 + length truncation_marker) \<and>
     (build_number = None \<longrightarrow>
        jenkins_operations env job_name ''logs'' =
          (Inr (fst (get_build_logs env job_name None)), [logs_request env job_name None]))"
  by (simp add: get_build_logs_def truncate_logs_def Let_def jenkins_operations_lower
      returned_def py_lower_def py_lower_char_def)

theorem get_build_logs_truncation_witness:
  "credentials_configured (demo_env (Response 200 (replicate 5000 CHR ''x'') no_json)) \<and>
   http (demo_env (Response 200 (replicate 5000 CHR ''x'') no_json))
     (logs_request (demo_env (Response 200 (replicate 5000 CHR ''x'') no_json)) ''j'' None)
       = Response 200 (replicate 5000 CHR ''x'') no_json \<and>
   length (replicate 5000 CHR ''x'') = 5000 \<and>
   fst (get_build_logs (demo_env (Response 200 (replicate 5000 CHR ''x'') no_json)) ''j'' None)
     = logs_header ''j'' @ replicate 2000 CHR ''x'' @ truncation_marker \<and>
   length (fst (get_build_logs
                  (demo_env (Response 200 (replicate 5000 CHR ''x'') no_json)) ''j'' None))
     = length (logs_header ''j'') + 2000 + length truncation_marker"
  using get_build_logs_truncation
          [OF demo_configured demo_http, of "replicate 5000 CHR ''x''" no_json "''j''" None]
  by (simp add: demo_configured demo_http)

text \<open>
  C5. When the user name or the API token is missing or empty, each of the five
  operations returns its "not configured" message and issues no HTTP request, and no
  operation text makes the router issue one.
\<close>

theorem missing_credentials_short_circuit:
  "\<not> credentials_configured env \<Longrightarrow>
     trigger_jenkins_job env job_name = (not_configured_long, []) \<and>
     get_job_status env job_name = (not_configured_short, []) \<and>
     get_build_logs env job_name build_number = (not_configured_short, []) \<and>
     analyze_build_errors env job_name = (Inr not_configured_short, []) \<and>
     create_jenkins_job env job_name job_config = (Inr not_configured_long, []) \<and>
     py_in ''not configured'' not_configured_long \<and>
     py_in ''not configured'' not_configured_short \<and>
     snd (jenkins_operations env job_name operation) = []"
  by (simp add: trigger_jenkins_job_def get_job_status_def get_build_logs_def
      analyze_build_errors_def create_jenkins_job_def jenkins_operations_lower returned_def
      Let_def not_configured_long_def not_configured_short_def)

theorem missing_credentials_short_circuit_witness:
  "\<not> credentials_configured (no_token_env (Response 200 [] build_7)) \<and>
   trigger_jenkins_job (no_token_env (Response 200 [] build_7)) ''j''
     = (not_configured_long, []) \<and>
   get_job_status (no_token_env (Response 200 [] build_7)) ''j''
     = (not_configured_short, []) \<and>
   get_build_logs (no_token_env (Response 200 [] build_7)) ''j'' None
     = (not_configured_short, []) \<and>
   analyze_build_errors (no_token_env (Response 200 [] build_7)) ''j''
     = (Inr not_configured_short, []) \<and>
   create_jenkins_job (no_token_env (Response 200 [] build_7)) ''j'' (job_template ''j'')
     = (Inr not_configured_long, []) \<and>
   snd (jenkins_operations (no_token_env (Response 200 [] build_7)) ''j'' ''trigger'') = []"
  using missing_credentials_short_circuit
          [OF no_token_unconfigured, of "Response 200 [] build_7" "''j''" None
              "job_template ''j''" "''trigger''"]
  by (simp add: no_token_unconfigured)

section \<open>Properties of the error analyzer\<close>

lemma pattern_hit_iff:
  "pattern_hit ps logs \<longleftrightarrow> (\<exists>p\<in>set ps. py_in (py_lower p) (py_lower logs))"
  by (induction ps) auto

lemma scan_patterns_filter:
  "scan_patterns tbl logs found =
     found @ map fst (filter (\<lambda>(t, ps). pattern_hit ps logs) tbl)"
  by (induction tbl logs found rule: scan_patterns.induct) auto

lemma distinct_categories: "distinct (map fst error_patterns)"
  by (simp add: error_patterns_def)

lemma found_errors_distinct: "distinct (found_errors logs)"
  unfolding found_errors_def scan_patterns_filter
  using distinct_categories by (simp add: distinct_map_filter)

lemma found_errors_set:
  "set (found_errors logs) =
     {c. \<exists>ps. (c, ps) \<in> set error_patterns \<and> (\<exists>p\<in>set ps. py_in (py_lower p) (py_lower logs))}"
  unfolding found_errors_def scan_patterns_filter
  by (force simp: pattern_hit_iff image_iff)

lemma py_set_iter_set: "set (py_set_iter rank xs) = set xs"
  by (simp add: py_set_iter_def)

lemma py_set_iter_distinct: "distinct (py_set_iter rank xs)"
  by (simp add: py_set_iter_def)

text \<open>The report on a given log text (lines 132 to 151).\<close>

lemma report_on_text:
  "set (reported_issues env logs) =
     {c. \<exists>ps. (c, ps) \<in> set error_patterns \<and> (\<exists>p\<in>set ps. py_in (py_lower p) (py_lower logs))} \<and>
   distinct (reported_issues env logs) \<and>
   (py_in ''ModuleNotFoundError'' logs \<and> py_in ''FAILED'' logs \<longrightarrow>
      count_list (reported_issues env logs) ''Dependency Issue'' = 1 \<and>
      count_list (reported_issues env logs) ''Test Failure'' = 1) \<and>
   error_report env job_name logs =
     (if reported_issues env logs = [] then
        ''No common errors detected in '' @ quoted job_name @ '' build logs.'' @ nl @ nl
          @ ''Logs:'' @ nl @ logs
      else
        ''Error Analysis for '' @ quoted job_name @ '':'' @ nl @ ''Found issues: ''
          @ py_join '', '' (reported_issues env logs) @ nl @ nl @ ''Full logs:'' @ nl @ logs)"
proof -
  have S: "set (reported_issues env logs) =
     {c. \<exists>ps. (c, ps) \<in> set error_patterns \<and> (\<exists>p\<in>set ps. py_in (py_lower p) (py_lower logs))}"
    by (simp add: reported_issues_def py_set_iter_set found_errors_set)
  have D: "distinct (reported_issues env logs)"
    by (simp add: reported_issues_def py_set_iter_distinct)
  have P: "count_list (reported_issues env logs) ''Dependency Issue'' = 1 \<and>
      count_list (reported_issues env logs) ''Test Failure'' = 1"
    if h: "py_in ''ModuleNotFoundError'' logs \<and> py_in ''FAILED'' logs"
  proof -
    have "(''Dependency Issue'',
            [''ModuleNotFoundError'', ''ImportError'', ''npm ERR'', ''pip install''])
            \<in> set error_patterns"
      by (simp add: error_patterns_def)
    moreover have "py_in (py_lower ''ModuleNotFoundError'') (py_lower logs)"
      using h by (simp add: py_in_lower)
    ultimately have a: "''Dependency Issue'' \<in> set (reported_issues env logs)"
      unfolding S by fastforce
    have "(''Test Failure'', [''FAILED'', ''AssertionError'', ''test failed''])
            \<in> set error_patterns"
      by (simp add: error_patterns_def)
    moreover have "py_in (py_lower ''FAILED'') (py_lower logs)"
      using h by (simp add: py_in_lower)
    ultimately have b: "''Test Failure'' \<in> set (reported_issues env logs)"
      unfolding S by fastforce
    from a b D show ?thesis by (simp add: count_list_distinct)
  qed
  have "reported_issues env logs = [] \<longleftrightarrow> found_errors logs = []"
    by (metis py_set_iter_set reported_issues_def set_empty)
  then have R: "error_report env job_name logs =
     (if reported_issues env logs = [] then
        ''No common errors detected in '' @ quoted job_name @ '' build logs.'' @ nl @ nl
          @ ''Logs:'' @ nl @ logs
      else
        ''Error Analysis for '' @ quoted job_name @ '':'' @ nl @ ''Found issues: ''
          @ py_join '', '' (reported_issues env logs) @ nl @ nl @ ''Full logs:'' @ nl @ logs)"
    by (simp add: error_report_def)
  from S D P R show ?thesis by blast
qed

section \<open>The analyzer on the fetched log\<close>

lemma py_split_index1:
  assumes "sep \<noteq> []" "split_once sep s = Some (a, b)"
  shows "py_index (py_split sep s) 1 = Inr (case split_once sep b of None \<Rightarrow> b | Some (c, d) \<Rightarrow> c)"
proof -
  have "py_split sep s = a # py_split sep b"
    using assms by (subst py_split.simps) simp
  moreover have "py_split sep b = (case split_once sep b of None \<Rightarrow> b | Some (c, d) \<Rightarrow> c)
       # (case split_once sep b of None \<Rightarrow> [] | Some (c, d) \<Rightarrow> py_split sep d)"
    using assms(1) by (subst py_split.simps) (simp split: option.splits)
  ultimately show ?thesis by (simp add: py_index_def)
qed

lemma truncate_phrase_log:
  "truncate_logs phrase_log =
     ''step 1 Build logs for module A'' @ replicate 1970 CHR ''.'' @ truncation_marker"
  by (simp add: truncate_logs_def phrase_log_def)

lemma extract_phrase_log:
  "extract_logs (logs_header ''j'' @ truncate_logs phrase_log) = Inr ''step 1 ''"
proof -
  let ?r = "logs_header ''j'' @ truncate_logs phrase_log"
  have 1: "split_once ''Build logs for'' ?r
      = Some ([], [CHR '' '', CHR 0x27, CHR ''j'', CHR 0x27, CHR '':'', CHR 0x0A] @ truncate_logs phrase_log)"
    by (simp add: logs_header_def quoted_def nl_def)
  have 2: "split_once ''Build logs for''
       ([CHR '' '', CHR 0x27, CHR ''j'', CHR 0x27, CHR '':'', CHR 0x0A] @ truncate_logs phrase_log)
      = Some ([CHR '' '', CHR 0x27, CHR ''j'', CHR 0x27, CHR '':'', CHR 0x0A] @ ''step 1 '',
              '' module A'' @ replicate 1970 CHR ''.'' @ truncation_marker)"
    by (simp add: truncate_phrase_log)
  have 3: "py_in ''Build logs for'' ?r"
    by (simp add: logs_header_def)
  have 4: "py_index (py_split ''Build logs for'' ?r) 1
     = Inr ([CHR '' '', CHR 0x27, CHR ''j'', CHR 0x27, CHR '':'', CHR 0x0A] @ ''step 1 '')"
  proof -
    have ne: "''Build logs for'' \<noteq> []" by simp
    show ?thesis using py_split_index1[OF ne 1, unfolded 2] by simp
  qed
  have 5: "py_index (py_split1 nl
      ([CHR '' '', CHR 0x27, CHR ''j'', CHR 0x27, CHR '':'', CHR 0x0A] @ ''step 1 '')) 1 = Inr ''step 1 ''"
    by (simp add: py_split1_def nl_def py_index_def)
  show ?thesis
    unfolding extract_logs_def using 3 4 5 by simp
qed

lemma no_errors_step: "found_errors ''step 1 '' = []"
  by (simp add: found_errors_def error_patterns_def py_lower_def py_lower_char_def)

text \<open>
  C9. The analyzer means to work on the truncated log it fetched, and it recovers that log
  from the response text by splitting at "Build logs for". On a console log that itself
  holds this phrase the recovery stops at the phrase: for the log below, whose only
  category match lies after position 2000, the analyzer reports no common errors, and the
  log text it includes is "step 1 ", not the truncated log.
\<close>

theorem analyzer_loses_log_after_phrase:
  "analyze_build_errors (demo_env (Response 200 phrase_log no_json)) ''j''
     = (Inr (''No common errors detected in 'j' build logs.'' @ nl @ nl @ ''Logs:'' @ nl
               @ ''step 1 ''),
        [logs_request (demo_env (Response 200 phrase_log no_json)) ''j'' None]) \<and>
   truncate_logs phrase_log =
     ''step 1 Build logs for module A'' @ replicate 1970 CHR ''.'' @ truncation_marker"
proof -
  have g: "get_build_logs (demo_env (Response 200 phrase_log no_json)) ''j'' None
     = (logs_header ''j'' @ truncate_logs phrase_log,
        [logs_request (demo_env (Response 200 phrase_log no_json)) ''j'' None])"
    by (simp add: get_build_logs_def demo_configured demo_http Let_def)
  have s: "\<not> py_startswith (logs_header ''j'' @ truncate_logs phrase_log) ''Error''"
    by (simp add: py_startswith_def logs_header_def)
  have "analyze_build_errors (demo_env (Response 200 phrase_log no_json)) ''j''
     = (Inr (error_report (demo_env (Response 200 phrase_log no_json)) ''j'' ''step 1 ''),
        [logs_request (demo_env (Response 200 phrase_log no_json)) ''j'' None])"
    unfolding analyze_build_errors_def using s
    by (simp add: demo_configured g extract_phrase_log)
  then show ?thesis
    by (simp add: error_report_def no_errors_step truncate_phrase_log quoted_def)
qed

text \<open>Where the recovery is right: the job name and the truncated log lack the phrase.\<close>

lemma prefix_sep_char:
  assumes "c \<notin> set kw"
  shows "prefix kw (a @ c # b) \<longleftrightarrow> prefix kw a"
proof
  assume "prefix kw (a @ c # b)"
  then consider "prefix kw a" | us where "kw = a @ us" "prefix us (c # b)"
    by (auto simp: prefix_append)
  then show "prefix kw a"
  proof cases
    case 1
    then show ?thesis .
  next
    case 2
    with assms have "us = []" by (cases us) auto
    with 2 show ?thesis by simp
  qed
next
  assume "prefix kw a"
  then show "prefix kw (a @ c # b)" by (rule prefix_prefix)
qed

lemma sublist_sep_char:
  assumes "c \<notin> set kw"
  shows "sublist kw (a @ c # b) \<longleftrightarrow> sublist kw a \<or> sublist kw b"
proof (induction a)
  case Nil
  have "prefix kw (c # b) \<longleftrightarrow> kw = []"
    using assms by (cases kw) auto
  then show ?case by (auto simp: sublist_Cons_right)
next
  case (Cons x a)
  have "prefix kw (x # a @ c # b) \<longleftrightarrow> prefix kw (x # a)"
    using prefix_sep_char[OF assms, of "x # a" b] by simp
  with Cons show ?case by (auto simp: sublist_Cons_right)
qed

lemma split_once_None: "\<not> sublist sep s \<Longrightarrow> split_once sep s = None"
  by (induction s) (auto simp: sublist_Cons_right)

lemma split_once_prefix: "sep \<noteq> [] \<Longrightarrow> split_once sep (sep @ b) = Some ([], b)"
  by (cases sep) auto

lemma split_once_char: "c \<notin> set a \<Longrightarrow> split_once [c] (a @ c # b) = Some (a, b)"
  by (induction a) auto

lemma py_split_two:
  assumes "sep \<noteq> []" "\<not> sublist sep rest"
  shows "py_split sep (sep @ rest) = [[], rest]"
proof -
  have "py_split sep rest = [rest]"
    using assms by (subst py_split.simps) (simp add: split_once_None)
  then show ?thesis
    using assms(1) by (subst py_split.simps) (simp add: split_once_prefix)
qed

lemma logs_header_split:
  "logs_header job_name @ t =
     ''Build logs for'' @ (([CHR '' '', CHR 0x27] @ job_name @ [CHR 0x27, CHR '':'']) @ CHR 0x0A # t)"
  by (simp add: logs_header_def quoted_def nl_def)

lemma extract_logs_header:
  assumes "CHR 0x0A \<notin> set job_name"
    and "\<not> py_in ''Build logs for'' job_name"
    and "\<not> py_in ''Build logs for'' t"
  shows "extract_logs (logs_header job_name @ t) = Inr t"
proof -
  let ?h = "[CHR '' '', CHR 0x27] @ job_name @ [CHR 0x27, CHR '':'']"
  let ?rest = "?h @ CHR 0x0A # t"
  have q: "CHR 0x27 \<notin> set ''Build logs for''" by simp
  have l: "\<not> sublist ''Build logs for'' '' ''" "\<not> sublist ''Build logs for'' '':''"
    by (simp_all add: py_in_sublist[symmetric])
  have "\<not> sublist ''Build logs for'' ('' '' @ CHR 0x27 # (job_name @ CHR 0x27 # '':''))"
    using assms(2) l unfolding sublist_sep_char[OF q] by (simp add: py_in_sublist)
  then have h: "\<not> sublist ''Build logs for'' ?h" by simp
  have n: "CHR 0x0A \<notin> set ''Build logs for''" by simp
  have rest: "\<not> sublist ''Build logs for'' ?rest"
    unfolding sublist_sep_char[OF n] using h assms(3) by (simp add: py_in_sublist)
  have ne: "''Build logs for'' \<noteq> []" by simp
  have 1: "py_split ''Build logs for'' (logs_header job_name @ t) = [[], ?rest]"
    unfolding logs_header_split by (rule py_split_two[OF ne rest])
  have "CHR 0x0A \<notin> set ?h" using assms(1) by simp
  then have "split_once [CHR 0x0A] ?rest = Some (?h, t)"
    by (rule split_once_char)
  then have 2: "py_split1 nl ?rest = [?h, t]"
    unfolding py_split1_def nl_def by simp
  have 3: "py_in ''Build logs for'' (logs_header job_name @ t)"
    unfolding logs_header_split py_in_sublist by (rule prefix_imp_sublist) simp
  have a: "py_index [[], ?rest] 1 = Inr ?rest"
    by (simp add: py_index_def)
  have b: "py_index [?h, t] 1 = Inr t"
    by (simp add: py_index_def)
  show ?thesis
    unfolding extract_logs_def by (simp only: 3 1 a 2 b if_True sum.case)
qed

lemma py_lower_LF: "py_lower (a @ CHR 0x0A # b) = py_lower a @ CHR 0x0A # py_lower b"
  by (simp add: py_lower_def py_lower_char_def)

lemma py_in_marker:
  assumes "CHR 0x0A \<notin> set kw" "\<not> py_in kw ''... (truncated)''"
  shows "py_in kw (py_lower (a @ truncation_marker)) = py_in kw (py_lower a)"
proof -
  have m: "py_lower ''... (truncated)'' = ''... (truncated)''"
    by (simp add: py_lower_def py_lower_char_def)
  have "py_lower (a @ truncation_marker) = py_lower a @ CHR 0x0A # ''... (truncated)''"
    using py_lower_LF[of a "''... (truncated)''"] unfolding m
    by (simp add: truncation_marker_def nl_def)
  then show ?thesis
    using assms by (simp add: py_in_sublist sublist_sep_char)
qed

lemma lowered_patterns:
  "py_lower ''error:'' = ''error:''"
  "py_lower ''Error:'' = ''error:''"
  "py_lower ''compilation failed'' = ''compilation failed''"
  "py_lower ''ModuleNotFoundError'' = ''modulenotfounderror''"
  "py_lower ''ImportError'' = ''importerror''"
  "py_lower ''npm ERR'' = ''npm err''"
  "py_lower ''pip install'' = ''pip install''"
  "py_lower ''Permission denied'' = ''permission denied''"
  "py_lower ''access denied'' = ''access denied''"
  "py_lower ''EACCES'' = ''eacces''"
  "py_lower ''Connection refused'' = ''connection refused''"
  "py_lower ''timeout'' = ''timeout''"
  "py_lower ''network error'' = ''network error''"
  "py_lower ''maven'' = ''maven''"
  "py_lower ''gradle'' = ''gradle''"
  "py_lower ''npm'' = ''npm''"
  "py_lower ''yarn'' = ''yarn''"
  "py_lower ''FAILED'' = ''failed''"
  "py_lower ''AssertionError'' = ''assertionerror''"
  "py_lower ''test failed'' = ''test failed''"
  by (simp_all add: py_lower_def py_lower_char_def)

lemma pattern_hit_marker_gen:
  assumes "\<forall>p\<in>set ps. CHR 0x0A \<notin> set (py_lower p) \<and> \<not> py_in (py_lower p) ''... (truncated)''"
  shows "pattern_hit ps (a @ truncation_marker) = pattern_hit ps a"
  using assms by (simp add: pattern_hit_iff py_in_marker)

lemma pattern_hit_marker:
  "(t, ps) \<in> set error_patterns \<Longrightarrow>
     pattern_hit ps (a @ truncation_marker) = pattern_hit ps a"
  by (rule pattern_hit_marker_gen) (auto simp: error_patterns_def lowered_patterns)

lemma found_errors_marker: "found_errors (a @ truncation_marker) = found_errors a"
proof -
  have "filter (\<lambda>(t, ps). pattern_hit ps (a @ truncation_marker)) error_patterns
          = filter (\<lambda>(t, ps). pattern_hit ps a) error_patterns"
    by (rule filter_cong[OF refl]) (auto simp: pattern_hit_marker)
  then show ?thesis
    by (simp add: found_errors_def scan_patterns_filter)
qed

lemma found_errors_truncated: "found_errors (truncate_logs logs) = found_errors (take 2000 logs)"
  by (simp add: truncate_logs_def found_errors_marker)

lemma analyzer_sees_truncated_log:
  assumes "credentials_configured env"
    and "http env (logs_request env job_name None) = Response 200 logs js"
    and "CHR 0x0A \<notin> set job_name"
    and "\<not> py_in ''Build logs for'' job_name"
    and "\<not> py_in ''Build logs for'' (truncate_logs logs)"
  shows "analyze_build_errors env job_name =
           (Inr (error_report env job_name (truncate_logs logs)),
            [logs_request env job_name None])"
    and "found_errors (truncate_logs logs) = found_errors (take 2000 logs)"
proof -
  have g: "get_build_logs env job_name None
     = (logs_header job_name @ truncate_logs logs, [logs_request env job_name None])"
    using assms(1,2) by (simp add: get_build_logs_def Let_def)
  have s: "\<not> py_startswith (logs_header job_name @ truncate_logs logs) ''Error''"
    by (simp add: py_startswith_def logs_header_def)
  show "analyze_build_errors env job_name =
           (Inr (error_report env job_name (truncate_logs logs)),
            [logs_request env job_name None])"
    unfolding analyze_build_errors_def using s assms(1)
    by (simp add: g extract_logs_header[OF assms(3,4,5)])
  show "found_errors (truncate_logs logs) = found_errors (take 2000 logs)"
    by (rule found_errors_truncated)
qed

lemma analyzer_raises_on_phrase_in_job_name:
  "analyze_build_errors (demo_env (Response 200 ''ok'' no_json)) ''Build logs for x''
     = (Inl IndexError,
        [logs_request (demo_env (Response 200 ''ok'' no_json)) ''Build logs for x'' None])"
proof -
  let ?E = "demo_env (Response 200 ''ok'' no_json)"
  let ?r = "logs_header ''Build logs for x'' @ truncate_logs ''ok''"
  have g: "get_build_logs ?E ''Build logs for x'' None
     = (?r, [logs_request ?E ''Build logs for x'' None])"
    by (simp add: get_build_logs_def demo_configured demo_http Let_def)
  have s: "\<not> py_startswith ?r ''Error''"
    by (simp add: py_startswith_def logs_header_def)
  have ne: "''Build logs for'' \<noteq> []" by simp
  have 1: "split_once ''Build logs for'' ?r
      = Some ([], [CHR '' '', CHR 0x27] @ ''Build logs for x'' @ [CHR 0x27, CHR '':'', CHR 0x0A] @ ''ok'')"
    by (simp add: logs_header_def quoted_def nl_def truncate_logs_def)
  have 2: "split_once ''Build logs for''
       ([CHR '' '', CHR 0x27] @ ''Build logs for x'' @ [CHR 0x27, CHR '':'', CHR 0x0A] @ ''ok'')
      = Some ([CHR '' '', CHR 0x27], '' x'' @ [CHR 0x27, CHR '':'', CHR 0x0A] @ ''ok'')"
    by simp
  have 3: "py_in ''Build logs for'' ?r"
    by (simp add: logs_header_def)
  have 4: "py_index (py_split ''Build logs for'' ?r) 1 = Inr [CHR '' '', CHR 0x27]"
    using py_split_index1[OF ne 1, unfolded 2] by simp
  have 5: "py_index (py_split1 nl [CHR '' '', CHR 0x27]) 1 = Inl IndexError"
    by (simp add: py_split1_def nl_def py_index_def)
  have "extract_logs ?r = Inl IndexError"
    unfolding extract_logs_def using 3 4 5 by simp
  then show ?thesis
    unfolding analyze_build_errors_def using s by (simp add: demo_configured g)
qed

subsection \<open>The analyzer from the fetched log to the report\<close>

lemma reported_issues_truncated:
  "reported_issues env (truncate_logs logs) = reported_issues env (take 2000 logs)"
  by (simp add: reported_issues_def found_errors_truncated)

text \<open>
  C6 (as amended). The analyzer works on the log it fetched, which is cut to its first
  2000 characters. With credentials configured, a 200 answer, a job name without a line
  feed, and "Build logs for" neither in the job name nor in the truncated log: matching is
  case-insensitive substring search of the first 2000 characters of the log against
  the category table; a category is reported exactly when one of its patterns occurs
  there, and no category is reported twice, however often its patterns occur; the result
  text lists exactly the reported categories and includes the truncated log. A log with
  "ModuleNotFoundError" and "FAILED" within its first 2000 characters reports
  Dependency Issue and Test Failure once each.
\<close>

theorem analyzer_reports_each_hit_category_once:
  assumes "credentials_configured env"
    and "http env (logs_request env job_name None) = Response 200 logs js"
    and "CHR 0x0A \<notin> set job_name"
    and "\<not> py_in ''Build logs for'' job_name"
    and "\<not> py_in ''Build logs for'' (truncate_logs logs)"
  shows "analyze_build_errors env job_name =
           (Inr (if reported_issues env (truncate_logs logs) = [] then
                   ''No common errors detected in '' @ quoted job_name @ '' build logs.''
                     @ nl @ nl @ ''Logs:'' @ nl @ truncate_logs logs
                 else
                   ''Error Analysis for '' @ quoted job_name @ '':'' @ nl @ ''Found issues: ''
                     @ py_join '', '' (reported_issues env (truncate_logs logs))
                     @ nl @ nl @ ''Full logs:'' @ nl @ truncate_logs logs),
            [logs_request env job_name None]) \<and>
         set (reported_issues env (truncate_logs logs)) =
           {c. \<exists>ps. (c, ps) \<in> set error_patterns \<and>
                 (\<exists>p\<in>set ps. py_in (py_lower p) (py_lower (take 2000 logs)))} \<and>
         distinct (reported_issues env (truncate_logs logs)) \<and>
         (py_in ''ModuleNotFoundError'' (take 2000 logs) \<and> py_in ''FAILED'' (take 2000 logs) \<longrightarrow>
            count_list (reported_issues env (truncate_logs logs)) ''Dependency Issue'' = 1 \<and>
            count_list (reported_issues env (truncate_logs logs)) ''Test Failure'' = 1)"
proof -
  note r = report_on_text[of env "truncate_logs logs" job_name]
  note t = report_on_text[of env "take 2000 logs" job_name]
  have A: "analyze_build_errors env job_name =
           (Inr (error_report env job_name (truncate_logs logs)),
            [logs_request env job_name None])"
    by (rule analyzer_sees_truncated_log(1)[OF assms])
  have S: "set (reported_issues env (truncate_logs logs)) =
           {c. \<exists>ps. (c, ps) \<in> set error_patterns \<and>
                 (\<exists>p\<in>set ps. py_in (py_lower p) (py_lower (take 2000 logs)))}"
    unfolding reported_issues_truncated using t by blast
  have D: "distinct (reported_issues env (truncate_logs logs))"
    using r by blast
  have P: "py_in ''ModuleNotFoundError'' (take 2000 logs) \<and> py_in ''FAILED'' (take 2000 logs) \<longrightarrow>
            count_list (reported_issues env (truncate_logs logs)) ''Dependency Issue'' = 1 \<and>
            count_list (reported_issues env (truncate_logs logs)) ''Test Failure'' = 1"
    unfolding reported_issues_truncated using t by blast
  have R: "error_report env job_name (truncate_logs logs) =
     (if reported_issues env (truncate_logs logs) = [] then
        ''No common errors detected in '' @ quoted job_name @ '' build logs.'' @ nl @ nl
          @ ''Logs:'' @ nl @ truncate_logs logs
      else
        ''Error Analysis for '' @ quoted job_name @ '':'' @ nl @ ''Found issues: ''
          @ py_join '', '' (reported_issues env (truncate_logs logs)) @ nl @ nl
          @ ''Full logs:'' @ nl @ truncate_logs logs)"
    using r by blast
  show ?thesis
    unfolding A R using S D P by blast
qed

lemma short_log_untruncated:
  "truncate_logs ''ModuleNotFoundError FAILED FAILED'' = ''ModuleNotFoundError FAILED FAILED''"
  "take 2000 ''ModuleNotFoundError FAILED FAILED'' = ''ModuleNotFoundError FAILED FAILED''"
  by (simp_all add: truncate_logs_def)

theorem analyzer_reports_each_hit_category_once_witness:
  "credentials_configured (demo_env (Response 200 ''ModuleNotFoundError FAILED FAILED'' no_json)) \<and>
   CHR 0x0A \<notin> set ''j'' \<and> \<not> py_in ''Build logs for'' ''j'' \<and>
   \<not> py_in ''Build logs for'' (truncate_logs ''ModuleNotFoundError FAILED FAILED'') \<and>
   py_in ''ModuleNotFoundError'' (take 2000 ''ModuleNotFoundError FAILED FAILED'') \<and>
   py_in ''FAILED'' (take 2000 ''ModuleNotFoundError FAILED FAILED'') \<and>
   count_list (reported_issues (demo_env (Response 200 ''ModuleNotFoundError FAILED FAILED'' no_json))
                 (truncate_logs ''ModuleNotFoundError FAILED FAILED'')) ''Dependency Issue'' = 1 \<and>
   count_list (reported_issues (demo_env (Response 200 ''ModuleNotFoundError FAILED FAILED'' no_json))
                 (truncate_logs ''ModuleNotFoundError FAILED FAILED'')) ''Test Failure'' = 1 \<and>
   snd (analyze_build_errors
          (demo_env (Response 200 ''ModuleNotFoundError FAILED FAILED'' no_json)) ''j'')
     = [logs_request (demo_env (Response 200 ''ModuleNotFoundError FAILED FAILED'' no_json))
          ''j'' None]"
proof -
  let ?E = "demo_env (Response 200 ''ModuleNotFoundError FAILED FAILED'' no_json)"
  have 1: "credentials_configured ?E" by (rule demo_configured)
  have 2: "http ?E (logs_request ?E ''j'' None)
             = Response 200 ''ModuleNotFoundError FAILED FAILED'' no_json"
    by (rule demo_http)
  have 3: "CHR 0x0A \<notin> set ''j''" by simp
  have 4: "\<not> py_in ''Build logs for'' ''j''" by simp
  have 5: "\<not> py_in ''Build logs for'' (truncate_logs ''ModuleNotFoundError FAILED FAILED'')"
    by (simp add: short_log_untruncated)
  have 6: "py_in ''ModuleNotFoundError'' (take 2000 ''ModuleNotFoundError FAILED FAILED'') \<and>
           py_in ''FAILED'' (take 2000 ''ModuleNotFoundError FAILED FAILED'')"
    by (simp add: short_log_untruncated)
  from analyzer_reports_each_hit_category_once[OF 1 2 3 4 5] 1 3 4 5 6 show ?thesis by simp
qed

lemma not_in_replicate:
  assumes "\<exists>x\<in>set kw. x \<noteq> c"
  shows "\<not> py_in kw (replicate n c)"
proof
  assume "py_in kw (replicate n c)"
  then have "set kw \<subseteq> set (replicate n c)"
    unfolding py_in_sublist by (rule set_mono_sublist)
  with assms show False by auto
qed

lemma lower_dots: "py_lower (replicate n CHR ''.'') = replicate n CHR ''.''"
  by (simp add: py_lower_def py_lower_char_def)

lemma found_errors_dots: "found_errors (replicate n CHR ''.'') = []"
  by (simp add: found_errors_def scan_patterns_filter error_patterns_def pattern_hit_iff
      lowered_patterns lower_dots not_in_replicate)

lemma truncate_late_log:
  "truncate_logs late_log = replicate 2000 CHR ''.'' @ truncation_marker"
  "take 2000 late_log = replicate 2000 CHR ''.''"
  by (simp_all add: truncate_logs_def late_log_def)

text \<open>
  C6, the claim as stated, fails: a log that holds "ModuleNotFoundError" and "FAILED" after
  its first 2000 characters is reported as having no common errors.
\<close>

theorem late_matches_are_not_reported:
  "py_in ''ModuleNotFoundError'' late_log \<and> py_in ''FAILED'' late_log \<and>
   analyze_build_errors (demo_env (Response 200 late_log no_json)) ''j''
     = (Inr (''No common errors detected in 'j' build logs.'' @ nl @ nl @ ''Logs:'' @ nl
               @ replicate 2000 CHR ''.'' @ truncation_marker),
        [logs_request (demo_env (Response 200 late_log no_json)) ''j'' None])"
proof -
  let ?E = "demo_env (Response 200 late_log no_json)"
  have a: "py_in ''ModuleNotFoundError'' late_log"
    unfolding py_in_sublist late_log_def
    using sublist_appendI[of "''ModuleNotFoundError''" "replicate 2000 CHR ''.''" "'' FAILED''"]
    by simp
  have b: "py_in ''FAILED'' late_log"
    unfolding py_in_sublist late_log_def
    using sublist_appendI[of "''FAILED''" "replicate 2000 CHR ''.'' @ ''ModuleNotFoundError ''" "[]"]
    by simp
  have n: "CHR 0x0A \<notin> set ''Build logs for''" by simp
  have "\<not> sublist ''Build logs for'' (replicate 2000 CHR ''.'' @ CHR 0x0A # ''... (truncated)'')"
    unfolding sublist_sep_char[OF n]
    using not_in_replicate[of "''Build logs for''" "CHR ''.''" 2000]
    by (simp add: py_in_sublist[symmetric])
  then have 5: "\<not> py_in ''Build logs for'' (truncate_logs late_log)"
    by (simp add: truncate_late_log truncation_marker_def nl_def py_in_sublist)
  have 3: "CHR 0x0A \<notin> set ''j''" by simp
  have 4: "\<not> py_in ''Build logs for'' ''j''" by simp
  have f: "found_errors (replicate 2000 CHR ''.'' @ truncation_marker) = []"
    by (simp add: found_errors_marker found_errors_dots)
  have "analyze_build_errors ?E ''j''
          = (Inr (error_report ?E ''j'' (truncate_logs late_log)), [logs_request ?E ''j'' None])"
    by (rule analyzer_sees_truncated_log(1)[OF demo_configured demo_http 3 4 5])
  then show ?thesis
    using a b by (simp add: error_report_def f truncate_late_log quoted_def)
qed

section \<open>Properties of the indexer\<close>

lemma collect_empty_iff:
  "collect env exts fs = [] \<longleftrightarrow> (\<forall>f\<in>set fs. \<not> eligible exts f)"
  by (induction fs) (auto simp: eligible_def split: option.splits)

lemma force_delete_done:
  "snd (force_delete env st attempt n) = None \<Longrightarrow> fst (force_delete env st attempt n) = NoStore"
  by (induction env st attempt n rule: force_delete.induct) (auto split: rm_outcome.splits)

text \<open>
  C1 (as amended). For every language filter: when the removal of an existing store
  succeeds within the three attempts, the archive extracts and leaves the working
  directory \<open>unzipped\<close> on disk, and the tree under it holds no file that is eligible (an
  allowed ending, readable, not blank), the call returns the "no files" message and
  creates no store; no store exists afterwards, since a store that existed before was
  removed at the start of the call, and the working directory is gone.
\<close>

theorem no_eligible_files_leaves_no_store:
  assumes "snd (force_delete env (chroma_store d) 0 3) = None"
    and "extractall env zip_path = Inr (Some files)"
    and "\<forall>f\<in>set files. \<not> eligible (valid_exts lang) f"
  shows "unzip_and_index env d zip_path lang =
           (no_files_message, \<lparr> chroma_store = NoStore, unzipped = False \<rparr>)"
proof -
  from assms(1) have "force_delete env (chroma_store d) 0 3 = (NoStore, None)"
    using force_delete_done[OF assms(1)] by (simp add: prod_eq_iff)
  moreover have "collect env (valid_exts lang) (walk (Some files)) = []"
    using assms(3) by (simp add: collect_empty_iff walk_def)
  ultimately show ?thesis
    by (simp add: unzip_and_index_def assms(2))
qed

lemma demo_delete: "force_delete demo_indexer old_store 0 3 = (NoStore, None)"
  by (simp add: numeral_3_eq_3 demo_indexer_def always_removed_def old_store_def)

lemma valid_exts_Python: "valid_exts ''Python'' = [''.py'']"
  by (simp add: valid_exts_def EXTENSIONS_def)

lemma demo_extract:
  "extractall demo_indexer zip_path
     = Inr (Some [\<lparr> root = ''unzipped'', name = ''README.rst'', content = Some ''hello'' \<rparr>])"
  by (simp add: demo_indexer_def readme_only_def)

lemma readme_not_python:
  "\<not> has_valid_ext (valid_exts ''Python'') ''README.rst''"
  by (simp add: valid_exts_Python has_valid_ext_def py_endswith_def suffix_to_prefix)

theorem no_eligible_files_leaves_no_store_witness:
  "snd (force_delete demo_indexer (chroma_store old_disk) 0 3) = None \<and>
   extractall demo_indexer ''code.zip''
     = Inr (Some [\<lparr> root = ''unzipped'', name = ''README.rst'', content = Some ''hello'' \<rparr>]) \<and>
   \<not> eligible (valid_exts ''Python'')
       \<lparr> root = ''unzipped'', name = ''README.rst'', content = Some ''hello'' \<rparr> \<and>
   unzip_and_index demo_indexer old_disk ''code.zip'' ''Python'' =
     (no_files_message, \<lparr> chroma_store = NoStore, unzipped = False \<rparr>)"
proof -
  have 1: "snd (force_delete demo_indexer (chroma_store old_disk) 0 3) = None"
    by (simp add: old_disk_def demo_delete)
  have 2: "extractall demo_indexer ''code.zip''
     = Inr (Some [\<lparr> root = ''unzipped'', name = ''README.rst'', content = Some ''hello'' \<rparr>])"
    by (rule demo_extract)
  have 3: "\<forall>f\<in>set [\<lparr> root = ''unzipped'', name = ''README.rst'', content = Some ''hello'' \<rparr>].
            \<not> eligible (valid_exts ''Python'') f"
    by (simp add: eligible_def readme_not_python)
  from no_eligible_files_leaves_no_store[OF 1 2 3] 1 2 3 show ?thesis by simp
qed

text \<open>
  C1, the claim as stated, fails: a run over an archive without eligible files returns
  the "no files" message and the store that was on disk is no longer there.
\<close>

theorem no_files_run_deletes_existing_store:
  "fst (unzip_and_index demo_indexer old_disk ''code.zip'' ''Python'') = no_files_message \<and>
   chroma_store (snd (unzip_and_index demo_indexer old_disk ''code.zip'' ''Python''))
     \<noteq> chroma_store old_disk"
proof -
  have "unzip_and_index demo_indexer old_disk ''code.zip'' ''Python''
          = (no_files_message, \<lparr> chroma_store = NoStore, unzipped = False \<rparr>)"
    by (simp add: unzip_and_index_def old_disk_def demo_delete demo_extract walk_def
        readme_not_python)
  then show ?thesis by (simp add: old_disk_def old_store_def)
qed

text \<open>
  Outside the amended claim: an archive without members leaves no working directory, its
  removal raises, and the run returns an error text.
\<close>

lemma empty_archive_run_is_an_error:
  "unzip_and_index empty_indexer old_disk ''code.zip'' ''Python'' =
     (indexing_error rmtree_missing, \<lparr> chroma_store = NoStore, unzipped = False \<rparr>)"
proof -
  have d: "force_delete empty_indexer (chroma_store old_disk) 0 3 = (NoStore, None)"
    by (simp add: numeral_3_eq_3 empty_indexer_def demo_indexer_def always_removed_def
        old_disk_def old_store_def)
  have e: "extractall empty_indexer ''code.zip'' = Inr None"
    by (simp add: empty_indexer_def no_members_def)
  show ?thesis
    by (simp add: unzip_and_index_def d e walk_def)
qed

lemma valid_exts_unknown:
  "lang \<notin> {''Python'', ''JavaScript'', ''Java'', ''Markdown'', ''Text'', ''All''} \<Longrightarrow>
     valid_exts lang = valid_exts ''All''"
  by (simp add: valid_exts_def EXTENSIONS_def)

lemma retag_documents:
  "map (\<lambda>doc. doc \<lparr> language := l \<rparr>) (all_documents env lang docs) = all_documents env l docs"
  by (induction docs) (auto simp: all_documents_def file_documents_def)

lemma length_documents:
  "length (all_documents env lang docs) = length (all_documents env l docs)"
  by (metis retag_documents length_map)

lemma unzip_and_index_same_exts:
  assumes "valid_exts lang = valid_exts l"
  shows "fst (unzip_and_index env d zip_path lang) = fst (unzip_and_index env d zip_path l)"
    and "unzipped (snd (unzip_and_index env d zip_path lang))
           = unzipped (snd (unzip_and_index env d zip_path l))"
    and "retag t (chroma_store (snd (unzip_and_index env d zip_path lang)))
           = retag t (chroma_store (snd (unzip_and_index env d zip_path l)))"
  using assms length_documents[of env lang _ l]
  by (auto simp: unzip_and_index_def Let_def retag_def retag_documents
      split: prod.splits option.splits sum.splits store_outcome.splits)

text \<open>
  C10. For a language filter that is none of the six keys of the table, the allowed endings
  are those of "All", and the run returns the same message and leaves the same disk as the
  run with "All" on the same archive, up to the language tag of the stored chunks.
\<close>

theorem unknown_language_falls_back_to_All:
  "lang \<notin> {''Python'', ''JavaScript'', ''Java'', ''Markdown'', ''Text'', ''All''} \<Longrightarrow>
     valid_exts lang = valid_exts ''All'' \<and>
     fst (unzip_and_index env d zip_path lang) = fst (unzip_and_index env d zip_path ''All'') \<and>
     unzipped (snd (unzip_and_index env d zip_path lang))
       = unzipped (snd (unzip_and_index env d zip_path ''All'')) \<and>
     retag ''All'' (chroma_store (snd (unzip_and_index env d zip_path lang)))
       = retag ''All'' (chroma_store (snd (unzip_and_index env d zip_path ''All'')))"
  using valid_exts_unknown[of lang] unzip_and_index_same_exts[of lang "''All''"]
  by simp

lemma indexed_main_All:
  "unzip_and_index main_indexer old_disk ''code.zip'' ''All'' =
     (''Indexed 1 files and stored 1 document chunks.'',
      \<lparr> chroma_store = Store [\<lparr> page_content = ''print(1)'', source = ''unzipped/main.py'',
                                 chunk_id = 0, language = ''All'' \<rparr>],
        unzipped = False \<rparr>)"
proof -
  have d: "force_delete main_indexer (chroma_store old_disk) 0 3 = (NoStore, None)"
    by (simp add: numeral_3_eq_3 main_indexer_def demo_indexer_def always_removed_def
        old_disk_def old_store_def)
  have e: "extractall main_indexer ''code.zip'' = main_and_readme ''code.zip''"
    by (simp add: main_indexer_def)
  have x: "valid_exts ''All'' = [''.py'', ''.js'', ''.jsx'', ''.ts'', ''.tsx'', ''.java'', ''.md'',
             ''.txt'', ''.json'', ''.yaml'', ''.yml'', ''.xml'', ''.html'', ''.css'']"
    by (simp add: valid_exts_def EXTENSIONS_def)
  have c: "collect main_indexer (valid_exts ''All'') (walk (Some
             [\<lparr> root = ''unzipped'', name = ''main.py'', content = Some ''print(1)'' \<rparr>,
              \<lparr> root = ''unzipped'', name = ''README.rst'', content = Some ''hello'' \<rparr>]))
           = [(''print(1)'', ''unzipped/main.py'')]"
    by (simp add: x walk_def has_valid_ext_def py_endswith_def suffix_to_prefix py_strip_def
        py_isspace_def path_join_def main_indexer_def demo_indexer_def)
  have s: "split_text main_indexer ''print(1)'' = [''print(1)'']"
    by (simp add: split_text_def main_indexer_def demo_indexer_def spec_split_text.simps)
  have p: "embed_and_persist main_indexer = Stored"
    by (simp add: main_indexer_def demo_indexer_def)
  have n: "str_nat (Suc 0) = ''1''"
    by (simp add: str_nat.simps digit_char_def)
  show ?thesis
    unfolding unzip_and_index_def d e main_and_readme_def
    by (simp add: c all_documents_def file_documents_def s p n)
qed

theorem unknown_language_falls_back_to_All_witness:
  "''Rust'' \<notin> {''Python'', ''JavaScript'', ''Java'', ''Markdown'', ''Text'', ''All''} \<and>
   fst (unzip_and_index main_indexer old_disk ''code.zip'' ''Rust'')
     = ''Indexed 1 files and stored 1 document chunks.'' \<and>
   retag ''All'' (chroma_store (snd (unzip_and_index main_indexer old_disk ''code.zip'' ''Rust'')))
     = Store [\<lparr> page_content = ''print(1)'', source = ''unzipped/main.py'',
                chunk_id = 0, language = ''All'' \<rparr>]"
  using unknown_language_falls_back_to_All[of "''Rust''" main_indexer old_disk "''code.zip''"]
  by (simp add: indexed_main_All retag_def)

subsection \<open>Chunk counts\<close>

lemma spec_split_count:
  "length (spec_split_text 1000 100 s) =
     (if length s \<le> 1000 then 1 else (length s - 100 + 899) div 900)"
proof (induction "length s" arbitrary: s rule: less_induct)
  case less
  show ?case
  proof (cases "length s \<le> 1000")
    case True
    then show ?thesis by (subst spec_split_text.simps) simp
  next
    case False
    let ?r = "drop 900 s"
    have len: "length ?r = length s - 900" by simp
    have "length ?r < length s" using False by simp
    then have IH: "length (spec_split_text 1000 100 ?r) =
       (if length ?r \<le> 1000 then 1 else (length ?r - 100 + 899) div 900)"
      by (rule less)
    have "spec_split_text 1000 100 s = take 1000 s # spec_split_text 1000 100 ?r"
      using False by (subst spec_split_text.simps) simp
    then have "length (spec_split_text 1000 100 s) = Suc (length (spec_split_text 1000 100 ?r))"
      by simp
    with IH len False show ?thesis by (auto; arith)
  qed
qed

lemma filter_file_documents:
  "filter (\<lambda>doc. source doc = path) (file_documents env lang cf) =
     (if snd cf = path then file_documents env lang cf else [])"
  by (auto simp: file_documents_def filter_empty_conv intro!: filter_True)

lemma filter_other_documents:
  "path \<notin> snd ` set docs \<Longrightarrow>
     filter (\<lambda>doc. source doc = path) (all_documents env lang docs) = []"
  by (induction docs) (auto simp: all_documents_def filter_file_documents)

lemma filter_all_documents:
  "distinct (map snd docs) \<Longrightarrow> (text, path) \<in> set docs \<Longrightarrow>
     filter (\<lambda>doc. source doc = path) (all_documents env lang docs)
       = file_documents env lang (text, path)"
proof (induction docs)
  case Nil
  then show ?case by simp
next
  case (Cons cf docs)
  have unfold: "all_documents env lang (cf # docs)
                  = file_documents env lang cf @ all_documents env lang docs"
    by (simp add: all_documents_def)
  show ?case
  proof (cases "cf = (text, path)")
    case True
    with Cons.prems(1) have "path \<notin> snd ` set docs" by auto
    then show ?thesis
      unfolding unfold using True by (simp add: filter_file_documents filter_other_documents)
  next
    case False
    with Cons.prems have in_rest: "(text, path) \<in> set docs" and d: "distinct (map snd docs)"
      by auto
    from in_rest have "path \<in> snd ` set docs" by force
    with Cons.prems(1) have "snd cf \<noteq> path" by auto
    then show ?thesis
      unfolding unfold using Cons.IH[OF d in_rest] by (simp add: filter_file_documents)
  qed
qed

lemma length_file_documents:
  "text_splitter env = spec_split_text \<Longrightarrow>
     length (file_documents env lang cf) = spec_chunk_count (length (fst cf))"
  by (simp add: file_documents_def split_text_def spec_split_count spec_chunk_count_def)

lemma chunk_ids_file_documents:
  "map chunk_id (file_documents env lang cf) = [0..<length (file_documents env lang cf)]"
proof -
  have "chunk_id \<circ> (\<lambda>(j, chunk). \<lparr> page_content = chunk, source = snd cf, chunk_id = j,
                                     language = lang \<rparr>) = fst"
    by (auto simp: fun_eq_iff)
  then show ?thesis by (simp add: file_documents_def)
qed

lemma length_all_documents:
  "text_splitter env = spec_split_text \<Longrightarrow>
     length (all_documents env lang docs)
       = sum_list (map (\<lambda>cf. spec_chunk_count (length (fst cf))) docs)"
  by (induction docs) (auto simp: all_documents_def length_file_documents)

lemma unzip_and_index_stored:
  assumes "snd (force_delete env (chroma_store d) 0 3) = None"
    and "extractall env zip_path = Inr (Some files)"
    and "embed_and_persist env = Stored"
    and "collect env (valid_exts lang) files \<noteq> []"
  shows "unzip_and_index env d zip_path lang =
           (''Indexed '' @ str_nat (length (collect env (valid_exts lang) files))
              @ '' files and stored ''
              @ str_nat (length (all_documents env lang (collect env (valid_exts lang) files)))
              @ '' document chunks.'',
            \<lparr> chroma_store = Store (all_documents env lang (collect env (valid_exts lang) files)),
              unzipped = False \<rparr>)"
proof -
  have "force_delete env (chroma_store d) 0 3 = (NoStore, None)"
    using force_delete_done[OF assms(1)] assms(1) by (simp add: prod_eq_iff)
  then show ?thesis
    using assms(4) by (simp add: unzip_and_index_def assms(2,3) walk_def Let_def)
qed

text \<open>
  C7. With the splitter the spec describes, built with the chunk size 1000 and the overlap
  100 the code passes, a run that stores an index holds, for every collected file of
  length L (paths being distinct), one chunk when L is at most 1000 and, when L is above
  1000, n chunks with n the ceiling of (L - 100) / 900, that is
  900 (n - 1) < L - 100 \<le> 900 n; 1000 characters give 1 chunk and 1001 characters
  give 2. The chunks of a file are numbered from 0, and the result text counts the files
  and the sum of their chunk counts.
\<close>

theorem chunk_count_formula:
  assumes "text_splitter env = spec_split_text"
    and "snd (force_delete env (chroma_store d) 0 3) = None"
    and "extractall env zip_path = Inr (Some files)"
    and "embed_and_persist env = Stored"
    and "distinct (map snd (collect env (valid_exts lang) files))"
    and "(text, path) \<in> set (collect env (valid_exts lang) files)"
  shows "length (chunks_of path (chroma_store (snd (unzip_and_index env d zip_path lang)))) =
           (if length text \<le> 1000 then 1 else (length text - 100 + 899) div 900) \<and>
         (length text > 1000 \<longrightarrow>
            900 * (length (chunks_of path
                     (chroma_store (snd (unzip_and_index env d zip_path lang)))) - 1)
              < length text - 100 \<and>
            length text - 100
              \<le> 900 * length (chunks_of path
                          (chroma_store (snd (unzip_and_index env d zip_path lang))))) \<and>
         (length text = 1000 \<longrightarrow>
            length (chunks_of path
                      (chroma_store (snd (unzip_and_index env d zip_path lang)))) = 1) \<and>
         (length text = 1001 \<longrightarrow>
            length (chunks_of path
                      (chroma_store (snd (unzip_and_index env d zip_path lang)))) = 2) \<and>
         map chunk_id (chunks_of path (chroma_store (snd (unzip_and_index env d zip_path lang))))
           = [0..<length (chunks_of path
                            (chroma_store (snd (unzip_and_index env d zip_path lang))))] \<and>
         fst (unzip_and_index env d zip_path lang) =
           ''Indexed '' @ str_nat (length (collect env (valid_exts lang) files))
             @ '' files and stored ''
             @ str_nat (sum_list (map (\<lambda>cf. spec_chunk_count (length (fst cf)))
                                   (collect env (valid_exts lang) files)))
             @ '' document chunks.''"
proof -
  let ?docs = "collect env (valid_exts lang) files"
  let ?n = "length (chunks_of path (chroma_store (snd (unzip_and_index env d zip_path lang))))"
  have ne: "?docs \<noteq> []" using assms(6) by auto
  note run = unzip_and_index_stored[OF assms(2,3,4) ne]
  have c: "chunks_of path (chroma_store (snd (unzip_and_index env d zip_path lang)))
             = file_documents env lang (text, path)"
    unfolding run by (simp add: chunks_of_def stored_documents_def
        filter_all_documents[OF assms(5,6)])
  have n: "?n = (if length text \<le> 1000 then 1 else (length text - 100 + 899) div 900)"
    unfolding c using length_file_documents[OF assms(1), of lang "(text, path)"]
    by (simp add: spec_chunk_count_def)
  have ids: "map chunk_id (chunks_of path (chroma_store (snd (unzip_and_index env d zip_path lang))))
               = [0..<?n]"
    unfolding c by (rule chunk_ids_file_documents)
  have msg: "fst (unzip_and_index env d zip_path lang) =
           ''Indexed '' @ str_nat (length ?docs) @ '' files and stored ''
             @ str_nat (sum_list (map (\<lambda>cf. spec_chunk_count (length (fst cf))) ?docs))
             @ '' document chunks.''"
    unfolding run by (simp add: length_all_documents[OF assms(1)])
  have arith: "(length text > 1000 \<longrightarrow>
                  900 * (?n - 1) < length text - 100 \<and> length text - 100 \<le> 900 * ?n) \<and>
               (length text = 1000 \<longrightarrow> ?n = 1) \<and> (length text = 1001 \<longrightarrow> ?n = 2)"
    unfolding n by (auto; arith)
  from n arith ids msg show ?thesis by blast
qed

lemma sizes_collect:
  "collect sizes_indexer (valid_exts ''Python'')
     [\<lparr> root = ''unzipped'', name = ''big.py'', content = Some (replicate 1001 CHR ''a'') \<rparr>,
      \<lparr> root = ''unzipped'', name = ''edge.py'', content = Some (replicate 1000 CHR ''b'') \<rparr>]
   = [(replicate 1001 CHR ''a'', ''unzipped/big.py''),
      (replicate 1000 CHR ''b'', ''unzipped/edge.py'')]"
  by (simp add: valid_exts_Python has_valid_ext_def py_endswith_def suffix_to_prefix
      py_strip_def py_isspace_def path_join_def sizes_indexer_def demo_indexer_def)

theorem chunk_count_formula_witness:
  "text_splitter sizes_indexer = spec_split_text \<and>
   snd (force_delete sizes_indexer (chroma_store old_disk) 0 3) = None \<and>
   embed_and_persist sizes_indexer = Stored \<and>
   length (replicate 1001 CHR ''a'') = 1001 \<and>
   length (chunks_of ''unzipped/big.py''
             (chroma_store (snd (unzip_and_index sizes_indexer old_disk ''code.zip'' ''Python''))))
     = 2 \<and>
   length (replicate 1000 CHR ''b'') = 1000 \<and>
   length (chunks_of ''unzipped/edge.py''
             (chroma_store (snd (unzip_and_index sizes_indexer old_disk ''code.zip'' ''Python''))))
     = 1"
proof -
  let ?files = "[\<lparr> root = ''unzipped'', name = ''big.py'',
                    content = Some (replicate 1001 CHR ''a'') \<rparr>,
                  \<lparr> root = ''unzipped'', name = ''edge.py'',
                    content = Some (replicate 1000 CHR ''b'') \<rparr>]"
  have 1: "text_splitter sizes_indexer = spec_split_text"
    by (simp add: sizes_indexer_def demo_indexer_def)
  have 2: "snd (force_delete sizes_indexer (chroma_store old_disk) 0 3) = None"
    by (simp add: numeral_3_eq_3 sizes_indexer_def demo_indexer_def always_removed_def
        old_disk_def old_store_def)
  have 3: "extractall sizes_indexer ''code.zip'' = Inr (Some ?files)"
    by (simp add: sizes_indexer_def two_sizes_def)
  have 4: "embed_and_persist sizes_indexer = Stored"
    by (simp add: sizes_indexer_def demo_indexer_def)
  have 5: "distinct (map snd (collect sizes_indexer (valid_exts ''Python'') ?files))"
    unfolding sizes_collect by simp
  have 6: "(replicate 1001 CHR ''a'', ''unzipped/big.py'')
             \<in> set (collect sizes_indexer (valid_exts ''Python'') ?files)"
    unfolding sizes_collect by simp
  have 7: "(replicate 1000 CHR ''b'', ''unzipped/edge.py'')
             \<in> set (collect sizes_indexer (valid_exts ''Python'') ?files)"
    unfolding sizes_collect by simp
  from chunk_count_formula[OF 1 2 3 4 5 6] chunk_count_formula[OF 1 2 3 4 5 7] 1 2 4 show ?thesis by simp
qed

section \<open>Properties of the retrieval tool adapter\<close>

text \<open>
  C8. For a mapping, the keys "query", "input", "page_content" are tried in this order and
  the value of the first one that is present with a non-empty (true) value is the query;
  when none is, and the mapping is not empty, the first value of the mapping is the
  query; a payload that is not a mapping is stringified.
\<close>

theorem universal_input_adapter_precedence:
  "(map_of items ''query'' = Some v \<and> truthy v \<longrightarrow>
      universal_input_adapter str_of (PDict items) = v) \<and>
   (\<not> present items ''query'' \<and> map_of items ''input'' = Some v \<and> truthy v \<longrightarrow>
      universal_input_adapter str_of (PDict items) = v) \<and>
   (\<not> present items ''query'' \<and> \<not> present items ''input'' \<and>
    map_of items ''page_content'' = Some v \<and> truthy v \<longrightarrow>
      universal_input_adapter str_of (PDict items) = v) \<and>
   (\<not> present items ''query'' \<and> \<not> present items ''input'' \<and>
    \<not> present items ''page_content'' \<and> items \<noteq> [] \<longrightarrow>
      universal_input_adapter str_of (PDict items) = snd (hd items)) \<and>
   ((\<forall>m. payload \<noteq> PDict m) \<longrightarrow>
      universal_input_adapter str_of payload = PStr (str_of payload))"
  by (cases payload)
     (auto simp: universal_input_adapter_def present_def split: option.splits)

theorem universal_input_adapter_precedence_witness:
  "map_of [(''input'', PStr ''''), (''query'', PStr ''find main'')] ''query''
     = Some (PStr ''find main'') \<and> truthy (PStr ''find main'') \<and>
   universal_input_adapter sample_str
     (PDict [(''input'', PStr ''''), (''query'', PStr ''find main'')]) = PStr ''find main'' \<and>
   \<not> present [(''text'', PStr ''parse''), (''query'', PStr '''')] ''query'' \<and>
   \<not> present [(''text'', PStr ''parse''), (''query'', PStr '''')] ''input'' \<and>
   \<not> present [(''text'', PStr ''parse''), (''query'', PStr '''')] ''page_content'' \<and>
   universal_input_adapter sample_str
     (PDict [(''text'', PStr ''parse''), (''query'', PStr '''')]) = PStr ''parse'' \<and>
   universal_input_adapter sample_str (PInt 42) = PStr ''42''"
  using universal_input_adapter_precedence[of "[(''input'', PStr ''''), (''query'', PStr ''find main'')]"
                   "PStr ''find main''" sample_str "PInt 42"]
        universal_input_adapter_precedence[of "[(''text'', PStr ''parse''), (''query'', PStr '''')]"
                   "PStr ''parse''" sample_str "PInt 42"]
  by (simp add: present_def str_int_def str_nat.simps digit_char_def)

end
